(* ===== verification/Prelude.thy ===== *)
theory Prelude
  imports Complex_Main
begin

text \<open>
  Shared vocabulary of the development: the JavaScript errors the modelled code can
  raise and the result type that carries them, the bind that threads a result through
  the sequential evaluation of an object literal, and decimal printing and parsing of
  natural numbers (the \<open>${n}\<close> of a JavaScript template literal on a non-negative
  integer) with its round trip.  The collection \<open>js_eval\<close> gathers the rules that
  evaluate closed terms of the model by \<open>simp\<close>.
\<close>

named_theorems js_eval "rules that evaluate closed terms of the model"

section \<open>Errors as values\<close>

text \<open>
  The only failure of the modelled code is a JavaScript \<open>TypeError\<close> raised by reading a
  property of \<open>undefined\<close> (\<open>theme.palette.success.main\<close> when \<open>success\<close> is missing,
  \<open>hexCode.replace\<close> when \<open>hexCode\<close> is \<open>undefined\<close>).  The constructor records the
  property whose read failed, as the engine's message does
  (\<open>Cannot read properties of undefined (reading 'main')\<close>).
\<close>

datatype js_error = TypeError string

type_synonym 'a js_result = "js_error + 'a"

definition bind_js :: "'a js_result \<Rightarrow> ('a \<Rightarrow> 'b js_result) \<Rightarrow> 'b js_result" where
  "bind_js r f = (case r of Inl e \<Rightarrow> Inl e | Inr v \<Rightarrow> f v)"

lemma bind_js_Inl [simp]: "bind_js (Inl e) f = Inl e"
  by (simp add: bind_js_def)

lemma bind_js_Inr [simp]: "bind_js (Inr v) f = f v"
  by (simp add: bind_js_def)

section \<open>Decimal digits\<close>

definition digit_char :: "nat \<Rightarrow> char" where
  "digit_char d = char_of (48 + d)"

definition is_dec_digit :: "char \<Rightarrow> bool" where
  "is_dec_digit c \<longleftrightarrow> (48::nat) \<le> of_char c \<and> (of_char c :: nat) \<le> 57"

definition digit_val :: "char \<Rightarrow> nat" where
  "digit_val c = (of_char c :: nat) - 48"

lemma of_char_digit_char [simp]: "d < 10 \<Longrightarrow> (of_char (digit_char d) :: nat) = 48 + d"
  by (simp add: digit_char_def)

lemma is_dec_digit_digit_char [simp]: "d < 10 \<Longrightarrow> is_dec_digit (digit_char d)"
  by (simp add: is_dec_digit_def)

lemma digit_val_digit_char [simp]: "d < 10 \<Longrightarrow> digit_val (digit_char d) = d"
  by (simp add: digit_val_def)

section \<open>Printing a natural number in decimal\<close>

text \<open>
  \<open>dec_string n\<close> is JavaScript's \<open>String(n)\<close> for a non-negative integer below
  \<open>10^21\<close>: its decimal digits, most significant first, with no leading zero.
\<close>

fun dec_string :: "nat \<Rightarrow> string" where
  "dec_string n =
     (if n < 10 then [digit_char n] else dec_string (n div 10) @ [digit_char (n mod 10)])"

declare dec_string.simps [simp del]

lemmas dec_string_eval [js_eval] = dec_string.simps digit_char_def char_of_eq_iff

lemma dec_string_nonempty [simp]: "dec_string n \<noteq> []"
  by (subst dec_string.simps) simp

lemma dec_string_digits: "\<forall>c \<in> set (dec_string n). is_dec_digit c"
proof (induction n rule: dec_string.induct)
  case (1 n)
  then show ?case by (subst dec_string.simps) auto
qed

text \<open>Reading digits back, most significant first.\<close>

definition dec_of_digits :: "string \<Rightarrow> nat" where
  "dec_of_digits s = foldl (\<lambda>acc c. 10 * acc + digit_val c) 0 s"

lemma dec_of_digits_snoc:
  "dec_of_digits (s @ [c]) = 10 * dec_of_digits s + digit_val c"
  by (simp add: dec_of_digits_def)

theorem dec_of_digits_dec_string [simp]: "dec_of_digits (dec_string n) = n"
proof (induction n rule: dec_string.induct)
  case (1 n)
  show ?case
  proof (cases "n < 10")
    case True
    then show ?thesis by (subst dec_string.simps) (simp add: dec_of_digits_def)
  next
    case False
    with "1.IH" have "dec_of_digits (dec_string (n div 10)) = n div 10" by simp
    with False show ?thesis
      by (subst dec_string.simps) (simp add: dec_of_digits_snoc)
  qed
qed

lemma takeWhile_digits_append:
  assumes "\<forall>c \<in> set s. is_dec_digit c" and "rest = [] \<or> \<not> is_dec_digit (hd rest)"
  shows "takeWhile is_dec_digit (s @ rest) = s" and "dropWhile is_dec_digit (s @ rest) = rest"
  using assms by (cases rest; simp add: takeWhile_append2 dropWhile_append2)+

end
