(* ===== verification/Style.thy ===== *)
theory Style
  imports Prelude
begin

text \<open>
  The values a MUI style override returns: nested JavaScript object literals whose
  leaves are numbers, strings, \<open>undefined\<close>, or the lengths the theme's
  \<open>spacing\<close> function produces.  An object literal keeps its keys in the order written,
  so it is an association list.  \<open>style_get\<close> reads a value by a path of keys, as the
  style engine reads \<open>rule['& .MuiAlert-icon'].boxShadow\<close>; \<open>keys_distinct\<close> is the
  well-formedness of an object literal (no key written twice, at any depth: a repeated
  key in a literal silently drops the earlier value).
\<close>

datatype style_value =
    SNum rat
  | SStr string
  | SUndef
  | SPx "rat list"
  | SObj "(string \<times> style_value) list"

text \<open>
  \<open>SPx ls\<close> is a CSS length list in pixels as the host's \<open>theme.spacing\<close> prints it
  (\<open>SPx [14, 0]\<close> is \<open>'14px 0px'\<close>); \<open>SUndef\<close> is a property whose value is
  \<open>undefined\<close>, which the style engine drops.
\<close>

type_synonym style_obj = "(string \<times> style_value) list"

text \<open>A colour read from the theme, written as a property value: \<open>color: c\<close>.\<close>

definition color_value :: "string option \<Rightarrow> style_value" where
  "color_value c = (case c of None \<Rightarrow> SUndef | Some s \<Rightarrow> SStr s)"

text \<open>A value substituted into a template literal: \<open>`${c} !important`\<close>.\<close>

definition template_str :: "string option \<Rightarrow> string" where
  "template_str c = (case c of None \<Rightarrow> ''undefined'' | Some s \<Rightarrow> s)"

lemma color_value_simps [simp, js_eval]:
  "color_value None = SUndef" "color_value (Some s) = SStr s"
  by (simp_all add: color_value_def)

lemma template_str_simps [simp, js_eval]:
  "template_str None = ''undefined''" "template_str (Some s) = s"
  by (simp_all add: template_str_def)

text \<open>Whether a value is a nested object: the style engine reads such an entry as a
  nested rule under a selector, any other as a property.\<close>

fun is_style_obj :: "style_value \<Rightarrow> bool" where
  "is_style_obj (SObj ps) \<longleftrightarrow> True"
| "is_style_obj _ \<longleftrightarrow> False"

lemma is_style_obj_color_value [simp]: "\<not> is_style_obj (color_value c)"
  by (cases c) simp_all

section \<open>Reading a style by a path of keys\<close>

fun style_get :: "style_value \<Rightarrow> string list \<Rightarrow> style_value option" where
  "style_get v [] = Some v"
| "style_get (SObj ps) (k # ks) =
     (case map_of ps k of None \<Rightarrow> None | Some v \<Rightarrow> style_get v ks)"
| "style_get _ (k # ks) = None"

lemma style_get_SObj_Cons [simp]:
  "style_get (SObj ((k, v) # ps)) (k' # ks) =
     (if k = k' then style_get v ks else style_get (SObj ps) (k' # ks))"
  by simp

section \<open>Well-formed object literals\<close>

fun keys_distinct :: "style_value \<Rightarrow> bool" where
  "keys_distinct (SObj ps) \<longleftrightarrow>
     distinct (map fst ps) \<and> list_all (\<lambda>p. keys_distinct (snd p)) ps"
| "keys_distinct _ \<longleftrightarrow> True"

lemma keys_distinct_leaf [simp]:
  "keys_distinct (SNum n)" "keys_distinct (SStr s)" "keys_distinct SUndef"
  "keys_distinct (SPx ls)" "keys_distinct (color_value c)"
  by (simp_all add: color_value_def split: option.split)

text \<open>A well-formed object has one value per key, found by every path through it.\<close>

lemma keys_distinct_get:
  "keys_distinct v \<Longrightarrow> style_get v ks = Some w \<Longrightarrow> keys_distinct w"
proof (induction v ks rule: style_get.induct)
  case (2 ps k ks)
  then obtain u where u: "map_of ps k = Some u" and w: "style_get u ks = Some w"
    by (auto split: option.splits)
  from u have "(k, u) \<in> set ps" by (rule map_of_SomeD)
  with "2.prems"(1) have "keys_distinct u" by (auto simp: list_all_iff)
  with u w "2.IH" show ?case by blast
qed auto

end
