(* ===== verification/Theme.thy ===== *)
theory Theme
  imports Style
begin

text \<open>
  The theme an override receives (\<open>OwnerStateThemeType\<close>: \<open>{ theme, ownerState }\<close>;
  the alert overrides read only \<open>theme\<close>).  The palette entries the overrides read are
  JavaScript properties that may be missing: an entry is \<open>None\<close> when the palette has
  no such object (reading \<open>.main\<close> of it raises), and its \<open>main\<close> is \<open>None\<close> when the
  object exists without that property (reading it gives \<open>undefined\<close>).  The theme's
  \<open>spacing\<close> is the host's function, kept abstract; \<open>mui_spacing\<close> is MUI's default
  one for a numeric factor, used by the examples.
\<close>

record palette_color =
  main :: "string option"

record common_colors =
  white :: "string option"

record palette =
  success :: "palette_color option"
  info :: "palette_color option"
  warning :: "palette_color option"
  error :: "palette_color option"
  common :: "common_colors option"

record theme =
  palette :: palette
  spacing :: "rat list \<Rightarrow> style_value"

section \<open>Severities and variants\<close>

datatype severity = Success | Info | Warning | Error

datatype variant = Standard | Outlined | Filled

definition all_severities :: "severity list" where
  "all_severities = [Success, Info, Warning, Error]"

definition all_variants :: "variant list" where
  "all_variants = [Standard, Outlined, Filled]"

lemma severity_in_all [simp]: "s \<in> set all_severities"
  by (cases s) (simp_all add: all_severities_def)

lemma variant_in_all [simp]: "v \<in> set all_variants"
  by (cases v) (simp_all add: all_variants_def)

text \<open>\<open>theme.palette[severity]\<close>: the palette entry a severity reads.\<close>

fun severity_entry :: "palette \<Rightarrow> severity \<Rightarrow> palette_color option" where
  "severity_entry p Success = success p"
| "severity_entry p Info = info p"
| "severity_entry p Warning = warning p"
| "severity_entry p Error = error p"

lemma severity_entry_common [simp]: "severity_entry (p\<lparr>common := x\<rparr>) s = severity_entry p s"
  by (cases s) simp_all

section \<open>Property reads that may raise\<close>

text \<open>\<open>entry.main\<close>: a \<open>TypeError\<close> when the entry itself is \<open>undefined\<close>.\<close>

definition read_main :: "palette_color option \<Rightarrow> string option js_result" where
  "read_main c = (case c of None \<Rightarrow> Inl (TypeError ''main'') | Some pc \<Rightarrow> Inr (main pc))"

text \<open>\<open>theme.palette.common.white\<close>: a \<open>TypeError\<close> when \<open>common\<close> is \<open>undefined\<close>.\<close>

definition read_white :: "common_colors option \<Rightarrow> string option js_result" where
  "read_white c = (case c of None \<Rightarrow> Inl (TypeError ''white'') | Some cc \<Rightarrow> Inr (white cc))"

lemma read_main_simps [simp, js_eval]:
  "read_main None = Inl (TypeError ''main'')" "read_main (Some pc) = Inr (main pc)"
  by (simp_all add: read_main_def)

lemma read_white_simps [simp, js_eval]:
  "read_white None = Inl (TypeError ''white'')" "read_white (Some cc) = Inr (white cc)"
  by (simp_all add: read_white_def)

section \<open>Complete themes\<close>

text \<open>
  The colour of a severity and the white of a palette, when the palette defines them,
  and the theme the overrides are written for: every severity colour and the common
  white defined.
\<close>

definition severity_main :: "palette \<Rightarrow> severity \<Rightarrow> string option" where
  "severity_main p s = Option.bind (severity_entry p s) main"

definition white_of :: "palette \<Rightarrow> string option" where
  "white_of p = Option.bind (common p) white"

definition palette_complete :: "palette \<Rightarrow> bool" where
  "palette_complete p \<longleftrightarrow>
     list_all (\<lambda>s. severity_main p s \<noteq> None) all_severities \<and> white_of p \<noteq> None"

lemma palette_complete_main:
  assumes "palette_complete p"
  obtains pc c where "severity_entry p s = Some pc" and "main pc = Some c"
    and "severity_main p s = Some c"
proof -
  from assms have "severity_main p s \<noteq> None"
    by (auto simp: palette_complete_def list_all_iff)
  then show ?thesis
    using that by (auto simp: severity_main_def bind_eq_Some_conv)
qed

lemma palette_complete_white:
  assumes "palette_complete p"
  obtains cc w where "common p = Some cc" and "white cc = Some w" and "white_of p = Some w"
proof -
  from assms have "white_of p \<noteq> None" by (simp add: palette_complete_def)
  then show ?thesis
    using that by (auto simp: white_of_def bind_eq_Some_conv)
qed

section \<open>MUI's default spacing\<close>

text \<open>
  \<open>createSpacing(factor)\<close> of MUI for a numeric factor: \<open>theme.spacing()\<close> with no
  argument is \<open>theme.spacing(1)\<close>; otherwise each argument is multiplied by the factor
  and printed in pixels, the results joined by spaces (\<open>SPx\<close> holds the lengths).
\<close>

definition mui_spacing :: "rat \<Rightarrow> rat list \<Rightarrow> style_value" where
  "mui_spacing factor ns = SPx (map (\<lambda>n. factor * n) (if ns = [] then [1] else ns))"

section \<open>An example theme\<close>

text \<open>
  The palette of the dashboard's light theme (the template's colours) with MUI's
  default spacing factor 8, the theme the spec's examples use.
\<close>

definition example_palette :: palette where
  "example_palette =
     \<lparr>success = Some \<lparr>main = Some ''#56CA00''\<rparr>,
      info = Some \<lparr>main = Some ''#16B1FF''\<rparr>,
      warning = Some \<lparr>main = Some ''#FFB400''\<rparr>,
      error = Some \<lparr>main = Some ''#FF4C51''\<rparr>,
      common = Some \<lparr>white = Some ''#FFF''\<rparr>\<rparr>"

definition example_theme :: theme where
  "example_theme = \<lparr>palette = example_palette, spacing = mui_spacing 8\<rparr>"

text \<open>The same palette without the success entry, and with a success entry that has no
  \<open>main\<close>: the two ways a theme can lack a colour.\<close>

definition palette_without_success :: palette where
  "palette_without_success = example_palette\<lparr>success := None\<rparr>"

definition palette_success_no_main :: palette where
  "palette_success_no_main = example_palette\<lparr>success := Some \<lparr>main = None\<rparr>\<rparr>"

end
