(* ===== verification/HexToRgba.thy ===== *)
theory HexToRgba
  imports Prelude
begin

text \<open>
  The colour helper \<open>hexToRGBA(hexCode, opacity)\<close> of \<open>src/@core/utils/hex-to-rgba\<close>,
  which the alert overrides call for every translucent colour.  Its source is not part
  of this snapshot; it is modelled from the spec ("converts a hex color plus an alpha
  fraction into an rgba() string") as the template this dashboard is built on writes it:
  \<^verbatim>\<open>
  let hex = hexCode.replace('#', '')
  if (hex.length === 3) hex = `${hex[0]}${hex[0]}${hex[1]}${hex[1]}${hex[2]}${hex[2]}`
  const r = parseInt(hex.substring(0, 2), 16)
  const g = parseInt(hex.substring(2, 4), 16)
  const b = parseInt(hex.substring(4, 6), 16)
  return `rgba(${r}, ${g}, ${b}, ${opacity})`
  \<close>
  with the JavaScript built-ins it calls written out: \<open>String.prototype.replace\<close> with
  a string pattern (first occurrence only), \<open>substring\<close> (arguments clamped to the
  string, swapped when reversed) and \<open>parseInt(s, 16)\<close> (leading white space, a sign,
  an optional \<open>0x\<close>, the longest prefix of hex digits, \<open>NaN\<close> when it is empty).
  The opacity is a number of hundredths (the overrides pass \<open>0.16\<close> and \<open>0.24\<close>), printed
  as \<open>${opacity}\<close> prints it.
\<close>

section \<open>JavaScript built-ins\<close>

text \<open>\<open>s.replace('#', '')\<close>: the first occurrence only.\<close>

fun replace_first :: "char \<Rightarrow> string \<Rightarrow> string" where
  "replace_first c [] = []"
| "replace_first c (x # xs) = (if x = c then xs else x # replace_first c xs)"

text \<open>\<open>s.substring(i, j)\<close> for non-negative integer arguments.\<close>

definition js_substring :: "string \<Rightarrow> nat \<Rightarrow> nat \<Rightarrow> string" where
  "js_substring s i j =
     (let a = min i (length s); b = min j (length s)
      in take (max a b - min a b) (drop (min a b) s))"

text \<open>The white space \<open>parseInt\<close> skips (its ASCII part: tab, line feed, vertical tab,
  form feed, carriage return, space).\<close>

definition is_js_space :: "char \<Rightarrow> bool" where
  "is_js_space c \<longleftrightarrow> c \<in> set [CHR 0x09, CHR 0x0A, CHR 0x0B, CHR 0x0C, CHR 0x0D, CHR 0x20]"

definition hex_digit_val :: "char \<Rightarrow> nat option" where
  "hex_digit_val c =
     (let n = (of_char c :: nat)
      in if 48 \<le> n \<and> n \<le> 57 then Some (n - 48)
         else if 97 \<le> n \<and> n \<le> 102 then Some (n - 87)
         else if 65 \<le> n \<and> n \<le> 70 then Some (n - 55)
         else None)"

definition is_hex_digit :: "char \<Rightarrow> bool" where
  "is_hex_digit c \<longleftrightarrow> hex_digit_val c \<noteq> None"

definition hex_of_digits :: "string \<Rightarrow> nat" where
  "hex_of_digits ds =
     foldl (\<lambda>acc c. 16 * acc + (case hex_digit_val c of Some d \<Rightarrow> d | None \<Rightarrow> 0)) 0 ds"

text \<open>
  \<open>parseInt(s, 16)\<close>; \<open>None\<close> is \<open>NaN\<close>.  (A negative zero, from \<open>'-0'\<close>, prints as
  \<open>0\<close> in a template literal, so the integer \<open>0\<close> stands for it.)
\<close>

definition strip_sign :: "string \<Rightarrow> int \<times> string" where
  "strip_sign s =
     (case s of
        [] \<Rightarrow> (1, [])
      | c # r \<Rightarrow> (if c = CHR ''-'' then (-1, r) else if c = CHR ''+'' then (1, r) else (1, s)))"

definition strip_hex_prefix :: "string \<Rightarrow> string" where
  "strip_hex_prefix s = (if take 2 s = ''0x'' \<or> take 2 s = ''0X'' then drop 2 s else s)"

definition parse_int_16 :: "string \<Rightarrow> int option" where
  "parse_int_16 s =
     (let (sign, s2) = strip_sign (dropWhile is_js_space s);
          ds = takeWhile is_hex_digit (strip_hex_prefix s2)
      in if ds = [] then None else Some (sign * int (hex_of_digits ds)))"

text \<open>\<open>${x}\<close> of a number \<open>parseInt\<close> returned.\<close>

definition js_number_str :: "int option \<Rightarrow> string" where
  "js_number_str x =
     (case x of
        None \<Rightarrow> ''NaN''
      | Some i \<Rightarrow> (if i < 0 then CHR ''-'' # dec_string (nat (- i)) else dec_string (nat i)))"

text \<open>\<open>${opacity}\<close> of the number \<open>k / 100\<close>: integer part, then the fraction without
  trailing zeros.\<close>

definition opacity_str :: "nat \<Rightarrow> string" where
  "opacity_str k =
     dec_string (k div 100) @
     (let f = k mod 100
      in if f = 0 then []
         else if f mod 10 = 0 then [CHR ''.'', digit_char (f div 10)]
         else [CHR ''.'', digit_char (f div 10), digit_char (f mod 10)])"

section \<open>hexToRGBA\<close>

text \<open>The hex string after the \<open>#\<close> is removed and a three-digit shorthand expanded.\<close>

definition normalize_hex :: "string \<Rightarrow> string" where
  "normalize_hex hexCode =
     (let hex = replace_first CHR ''#'' hexCode
      in if length hex = 3 then [hex ! 0, hex ! 0, hex ! 1, hex ! 1, hex ! 2, hex ! 2] else hex)"

definition rgb_channels :: "string \<Rightarrow> int option \<times> int option \<times> int option" where
  "rgb_channels hexCode =
     (let hex = normalize_hex hexCode
      in (parse_int_16 (js_substring hex 0 2),
          parse_int_16 (js_substring hex 2 4),
          parse_int_16 (js_substring hex 4 6)))"

definition hexToRGBA :: "string \<Rightarrow> nat \<Rightarrow> string" where
  "hexToRGBA hexCode opacity =
     (case rgb_channels hexCode of
        (r, g, b) \<Rightarrow>
          ''rgba('' @ js_number_str r @ '', '' @ js_number_str g @ '', '' @ js_number_str b @
          '', '' @ opacity_str opacity @ '')'')"

text \<open>
  The overrides pass a palette colour that may be \<open>undefined\<close>: then
  \<open>hexCode.replace\<close> raises.
\<close>

definition hexToRGBA_js :: "string option \<Rightarrow> nat \<Rightarrow> string js_result" where
  "hexToRGBA_js c opacity =
     (case c of None \<Rightarrow> Inl (TypeError ''replace'') | Some s \<Rightarrow> Inr (hexToRGBA s opacity))"

lemma hexToRGBA_js_simps [simp]:
  "hexToRGBA_js None k = Inl (TypeError ''replace'')"
  "hexToRGBA_js (Some s) k = Inr (hexToRGBA s k)"
  by (simp_all add: hexToRGBA_js_def)

lemmas hex_eval [js_eval] = hexToRGBA_def rgb_channels_def normalize_hex_def js_substring_def
  parse_int_16_def strip_sign_def strip_hex_prefix_def is_js_space_def is_hex_digit_def
  hex_digit_val_def hex_of_digits_def js_number_str_def opacity_str_def

text \<open>A channel as \<open>parseInt\<close> can return it from two characters: \<open>NaN\<close>, or
  between \<open>-15\<close> (from \<open>'-f'\<close>) and \<open>255\<close> (from \<open>'ff'\<close>).\<close>

definition channel_in_range :: "int option \<Rightarrow> bool" where
  "channel_in_range x = (case x of None \<Rightarrow> True | Some i \<Rightarrow> -15 \<le> i \<and> i \<le> 255)"

section \<open>Encoding a colour and reading an rgba string back\<close>

text \<open>
  The inverse direction, for the statements below: \<open>hex_color r g b\<close> is the
  \<open>#rrggbb\<close> string of three bytes in lower-case hex, and \<open>parse_rgba\<close> reads the
  three channels back from an \<open>rgba(r, g, b, a)\<close> string.
\<close>

definition hex_char :: "nat \<Rightarrow> char" where
  "hex_char d = (if d < 10 then char_of (48 + d) else char_of (87 + d))"

definition hex_byte :: "nat \<Rightarrow> string" where
  "hex_byte n = [hex_char (n div 16), hex_char (n mod 16)]"

definition hex_color :: "nat \<Rightarrow> nat \<Rightarrow> nat \<Rightarrow> string" where
  "hex_color r g b = CHR ''#'' # hex_byte r @ hex_byte g @ hex_byte b"

definition read_channel :: "string \<Rightarrow> (nat \<times> string) option" where
  "read_channel s =
     (let ds = takeWhile is_dec_digit s; rest = dropWhile is_dec_digit s
      in if ds \<noteq> [] \<and> take 2 rest = '', '' then Some (dec_of_digits ds, drop 2 rest) else None)"

definition parse_rgba :: "string \<Rightarrow> (nat \<times> nat \<times> nat) option" where
  "parse_rgba s =
     (if take 5 s = ''rgba('' then
        (case read_channel (drop 5 s) of
           None \<Rightarrow> None
         | Some (r, s1) \<Rightarrow>
             (case read_channel s1 of
                None \<Rightarrow> None
              | Some (g, s2) \<Rightarrow>
                  (case read_channel s2 of None \<Rightarrow> None | Some (b, _) \<Rightarrow> Some (r, g, b))))
      else None)"

text \<open>A well-formed colour: \<open>#\<close> and three or six hex digits; and the value of one digit.\<close>

definition is_hex_color :: "string \<Rightarrow> bool" where
  "is_hex_color c \<longleftrightarrow>
     (case c of
        [] \<Rightarrow> False
      | h # ds \<Rightarrow> h = CHR ''#'' \<and> (length ds = 6 \<or> length ds = 3) \<and> list_all is_hex_digit ds)"

definition hex_val :: "char \<Rightarrow> nat" where
  "hex_val c = (case hex_digit_val c of Some d \<Rightarrow> d | None \<Rightarrow> 0)"

text \<open>\<open>toUpperCase\<close> on one ASCII character.\<close>

definition ascii_upper :: "char \<Rightarrow> char" where
  "ascii_upper c =
     (if 97 \<le> (of_char c :: nat) \<and> (of_char c :: nat) \<le> 122 then char_of ((of_char c :: nat) - 32) else c)"

section \<open>Properties\<close>

subsection \<open>The shorthand \<open>#abc\<close>\<close>

lemma normalize_hex_shorthand:
  "normalize_hex (CHR ''#'' # [a, b, c]) = [a, a, b, b, c, c]"
  by (simp add: normalize_hex_def)

lemma normalize_hex_long:
  "length s \<noteq> 3 \<Longrightarrow> normalize_hex (CHR ''#'' # s) = s"
  by (simp add: normalize_hex_def)

text \<open>A three-character colour \<open>#abc\<close> gives the same rgba string as its six-character
  expansion \<open>#aabbcc\<close>, whatever the characters.\<close>

theorem hexToRGBA_shorthand:
  "hexToRGBA (CHR ''#'' # [a, b, c]) k = hexToRGBA (CHR ''#'' # [a, a, b, b, c, c]) k"
  by (simp add: hexToRGBA_def rgb_channels_def normalize_hex_shorthand normalize_hex_long)

subsection \<open>Colours of other lengths\<close>

text \<open>Only the first six hex digits are read: of an eight-digit colour \<open>#rrggbbaa\<close> the
  alpha digits are dropped, and of a four-digit \<open>#rgba\<close> the blue channel reads the
  empty string, \<open>NaN\<close>.\<close>

lemma js_substring_append:
  "j \<le> length x \<Longrightarrow> i \<le> j \<Longrightarrow> js_substring (x @ y) i j = js_substring x i j"
  by (simp add: js_substring_def min_def max_def)

lemma parse_int_16_Nil [simp]: "parse_int_16 [] = None"
  by (simp add: parse_int_16_def strip_sign_def strip_hex_prefix_def)

theorem hexToRGBA_alpha_ignored:
  assumes "length x = 6"
  shows "hexToRGBA (CHR ''#'' # x @ y) k = hexToRGBA (CHR ''#'' # x) k"
  using assms by (simp add: hexToRGBA_def rgb_channels_def normalize_hex_long js_substring_append)

lemma rgb_channels_four_digits:
  "rgb_channels (CHR ''#'' # [a, b, c, d]) = (parse_int_16 [a, b], parse_int_16 [c, d], None)"
  by (simp add: rgb_channels_def normalize_hex_long js_substring_def)

theorem hexToRGBA_four_digits:
  "hexToRGBA (CHR ''#'' # [a, b, c, d]) k =
     ''rgba('' @ js_number_str (parse_int_16 [a, b]) @ '', '' @ js_number_str (parse_int_16 [c, d]) @
     '', NaN, '' @ opacity_str k @ '')''"
  by (simp add: hexToRGBA_def rgb_channels_four_digits js_number_str_def)

subsection \<open>Channel bounds\<close>

lemma hex_digit_val_less: "hex_digit_val c = Some d \<Longrightarrow> d < 16"
  by (auto simp: hex_digit_val_def Let_def split: if_splits)

lemma hex_of_digits_less:
  "hex_of_digits ds < 16 ^ length ds"
proof (induction ds rule: rev_induct)
  case Nil
  then show ?case by (simp add: hex_of_digits_def)
next
  case (snoc c ds)
  have d: "(case hex_digit_val c of Some d \<Rightarrow> d | None \<Rightarrow> 0) < 16"
    by (auto dest: hex_digit_val_less split: option.split)
  have "hex_of_digits (ds @ [c]) = 16 * hex_of_digits ds + (case hex_digit_val c of Some d \<Rightarrow> d | None \<Rightarrow> 0)"
    by (simp add: hex_of_digits_def)
  also have "\<dots> < 16 * (hex_of_digits ds + 1)" using d by simp
  also have "\<dots> \<le> 16 * 16 ^ length ds" using snoc.IH by simp
  finally show ?case by simp
qed

lemma strip_sign_length:
  "strip_sign s = (sign, r) \<Longrightarrow> (sign = 1 \<and> length r \<le> length s) \<or> (sign = -1 \<and> length r < length s)"
  by (auto simp: strip_sign_def split: list.splits if_splits)

lemma length_strip_hex_prefix: "length (strip_hex_prefix s) \<le> length s"
  by (simp add: strip_hex_prefix_def)

lemma length_dropWhile_le: "length (dropWhile P s) \<le> length s"
  by (induction s) auto

theorem parse_int_16_bounds:
  assumes "length s \<le> 2" and "parse_int_16 s = Some i"
  shows "-15 \<le> i \<and> i \<le> 255"
proof -
  obtain sign r where sr: "strip_sign (dropWhile is_js_space s) = (sign, r)"
    by (cases "strip_sign (dropWhile is_js_space s)")
  define ds where "ds = takeWhile is_hex_digit (strip_hex_prefix r)"
  from assms(2) sr have i: "i = sign * int (hex_of_digits ds)"
    by (auto simp: parse_int_16_def ds_def Let_def split: if_splits)
  have lds: "length ds \<le> length r"
    using length_strip_hex_prefix [of r] length_takeWhile_le [of is_hex_digit "strip_hex_prefix r"]
    by (simp add: ds_def)
  have ld: "length (dropWhile is_js_space s) \<le> 2"
    using assms(1) length_dropWhile_le [of is_js_space s] by simp
  from strip_sign_length [OF sr] show ?thesis
  proof
    assume "sign = 1 \<and> length r \<le> length (dropWhile is_js_space s)"
    with ld lds have "hex_of_digits ds < 16 ^ 2"
      using hex_of_digits_less [of ds] power_increasing [of "length ds" 2 "16::nat"]
      by (meson le_trans less_le_trans one_le_numeral)
    with i \<open>sign = 1 \<and> _\<close> show ?thesis by simp
  next
    assume "sign = -1 \<and> length r < length (dropWhile is_js_space s)"
    with ld lds have "length ds \<le> 1" by simp
    then have "hex_of_digits ds < 16 ^ 1"
      using hex_of_digits_less [of ds] power_increasing [of "length ds" 1 "16::nat"]
      by (meson less_le_trans one_le_numeral)
    with i \<open>sign = -1 \<and> _\<close> show ?thesis by simp
  qed
qed

lemma length_js_substring: "i \<le> j \<Longrightarrow> length (js_substring s i j) \<le> j - i"
  by (simp add: js_substring_def Let_def)

lemma channel_in_range_substring:
  "i \<le> j \<Longrightarrow> j - i \<le> 2 \<Longrightarrow> channel_in_range (parse_int_16 (js_substring s i j))"
  using parse_int_16_bounds [OF le_trans [OF length_js_substring]]
  by (cases "parse_int_16 (js_substring s i j)") (simp_all add: channel_in_range_def)

text \<open>Whatever string it is given, each channel \<open>hexToRGBA\<close> computes is
  \<open>NaN\<close> or an integer between -15 and 255.\<close>

theorem rgb_channels_in_range:
  "case rgb_channels hexCode of (r, g, b) \<Rightarrow>
     channel_in_range r \<and> channel_in_range g \<and> channel_in_range b"
  by (simp add: rgb_channels_def Let_def channel_in_range_substring)

subsection \<open>Round trip\<close>

lemma of_char_hex_char: "d < 16 \<Longrightarrow> (of_char (hex_char d) :: nat) = (if d < 10 then 48 + d else 87 + d)"
  by (simp add: hex_char_def)

lemma hex_digit_val_hex_char [simp]: "d < 16 \<Longrightarrow> hex_digit_val (hex_char d) = Some d"
  by (simp add: hex_digit_val_def of_char_hex_char)

lemma hex_char_neq:
  assumes "d < 16" and "(of_char c :: nat) \<notin> {48..57} \<union> {97..102}"
  shows "hex_char d \<noteq> c"
proof
  assume "hex_char d = c"
  then have "(of_char c :: nat) = (if d < 10 then 48 + d else 87 + d)"
    using of_char_hex_char [OF assms(1)] by simp
  with assms show False by (simp split: if_splits)
qed

lemma hex_char_not_special:
  assumes "d < 16"
  shows "\<not> is_js_space (hex_char d)" "hex_char d \<noteq> CHR ''-''" "hex_char d \<noteq> CHR ''+''"
    "hex_char d \<noteq> CHR ''#''" "hex_char d \<noteq> CHR ''x''" "hex_char d \<noteq> CHR ''X''"
  using hex_char_neq [OF assms] by (auto simp: is_js_space_def)

lemma parse_int_16_hex_byte:
  assumes "n < 256"
  shows "parse_int_16 (hex_byte n) = Some (int n)"
proof -
  have hi: "n div 16 < 16" and lo: "n mod 16 < 16" using assms by simp_all
  have "strip_hex_prefix (hex_byte n) = hex_byte n"
    using hex_char_not_special(5,6) [OF lo] by (simp add: strip_hex_prefix_def hex_byte_def)
  moreover have "takeWhile is_hex_digit (hex_byte n) = hex_byte n"
    using hi lo by (simp add: hex_byte_def is_hex_digit_def)
  moreover have "hex_of_digits (hex_byte n) = n"
    using hi lo by (simp add: hex_byte_def hex_of_digits_def)
  moreover have "strip_sign (dropWhile is_js_space (hex_byte n)) = (1, hex_byte n)"
    using hex_char_not_special(1-3) [OF hi] by (simp add: hex_byte_def strip_sign_def)
  ultimately show ?thesis by (simp add: parse_int_16_def hex_byte_def)
qed

lemma length_hex_byte [simp]: "length (hex_byte n) = 2"
  by (simp add: hex_byte_def)

lemma normalize_hex_color:
  assumes "r < 256" "g < 256" "b < 256"
  shows "normalize_hex (hex_color r g b) = hex_byte r @ hex_byte g @ hex_byte b"
  by (simp add: normalize_hex_def hex_color_def)

lemma rgb_channels_hex_color:
  assumes "r < 256" "g < 256" "b < 256"
  shows "rgb_channels (hex_color r g b) = (Some (int r), Some (int g), Some (int b))"
proof -
  have "js_substring (hex_byte r @ hex_byte g @ hex_byte b) 0 2 = hex_byte r"
    and "js_substring (hex_byte r @ hex_byte g @ hex_byte b) 2 4 = hex_byte g"
    and "js_substring (hex_byte r @ hex_byte g @ hex_byte b) 4 6 = hex_byte b"
    by (simp_all add: js_substring_def)
  with assms show ?thesis
    by (simp add: rgb_channels_def normalize_hex_color parse_int_16_hex_byte)
qed

theorem hexToRGBA_hex_color:
  assumes "r < 256" "g < 256" "b < 256"
  shows "hexToRGBA (hex_color r g b) k =
    ''rgba('' @ dec_string r @ '', '' @ dec_string g @ '', '' @ dec_string b @ '', '' @
    opacity_str k @ '')''"
  using assms by (simp add: hexToRGBA_def rgb_channels_hex_color js_number_str_def)

lemma read_channel_dec_string:
  "read_channel (dec_string n @ CHR '','' # CHR '' '' # rest) = Some (n, rest)"
proof -
  have nd: "\<not> is_dec_digit (CHR '','')" by (simp add: is_dec_digit_def)
  have "takeWhile is_dec_digit (dec_string n @ '', '' @ rest) = dec_string n"
    and "dropWhile is_dec_digit (dec_string n @ '', '' @ rest) = '', '' @ rest"
    using takeWhile_digits_append [OF dec_string_digits, of "'', '' @ rest"] nd by simp_all
  then show ?thesis by (simp add: read_channel_def)
qed

text \<open>Encoding three bytes as \<open>#rrggbb\<close> and converting with \<open>hexToRGBA\<close> gives an
  rgba string from which the same three bytes are read back, whatever the opacity.\<close>

lemma parse_rgba_rgba_string:
  "parse_rgba (CHR ''r'' # CHR ''g'' # CHR ''b'' # CHR ''a'' # CHR ''('' #
     dec_string r @ CHR '','' # CHR '' '' # dec_string g @ CHR '','' # CHR '' '' #
     dec_string b @ CHR '','' # CHR '' '' # rest) = Some (r, g, b)"
  by (simp add: parse_rgba_def read_channel_dec_string)

theorem parse_rgba_hexToRGBA:
  assumes "r < 256" "g < 256" "b < 256"
  shows "parse_rgba (hexToRGBA (hex_color r g b) k) = Some (r, g, b)"
  using assms by (simp add: hexToRGBA_hex_color parse_rgba_rgba_string)

subsection \<open>Case does not matter\<close>

text \<open>\<open>parseInt\<close> reads hex digits in either case and both \<open>0x\<close> and \<open>0X\<close>, and the other
  characters \<open>hexToRGBA\<close> looks at are not letters, so upper-casing a colour changes
  nothing it prints.\<close>

lemma of_char_ascii_upper:
  "(of_char (ascii_upper c) :: nat) =
     (if 97 \<le> (of_char c :: nat) \<and> (of_char c :: nat) \<le> 122 then of_char c - 32 else of_char c)"
proof -
  have "(of_char c :: nat) - 32 < 256" using nat_of_char_less_256 [of c] by linarith
  then show ?thesis by (simp add: ascii_upper_def)
qed

lemma char_eq_of_char: "c = d \<longleftrightarrow> (of_char c :: nat) = of_char d"
  by simp

lemma ascii_upper_eq_iff:
  "ascii_upper c = d \<longleftrightarrow>
     (if 97 \<le> (of_char c :: nat) \<and> (of_char c :: nat) \<le> 122 then (of_char c :: nat) - 32 else of_char c)
     = of_char d"
  by (simp only: char_eq_of_char [of "ascii_upper c"] of_char_ascii_upper)

lemma ascii_upper_special [simp]:
  "ascii_upper c = CHR ''#'' \<longleftrightarrow> c = CHR ''#''"
  "ascii_upper c = CHR ''-'' \<longleftrightarrow> c = CHR ''-''"
  "ascii_upper c = CHR ''+'' \<longleftrightarrow> c = CHR ''+''"
  "ascii_upper c = CHR ''0'' \<longleftrightarrow> c = CHR ''0''"
  "ascii_upper c = CHR ''x'' \<longleftrightarrow> False"
  "ascii_upper c = CHR ''X'' \<longleftrightarrow> c = CHR ''x'' \<or> c = CHR ''X''"
  by (simp_all only: ascii_upper_eq_iff char_eq_of_char [of c]) auto

lemma hex_digit_val_ascii_upper [simp]: "hex_digit_val (ascii_upper c) = hex_digit_val c"
  unfolding hex_digit_val_def of_char_ascii_upper Let_def by (simp split: if_split; arith)

lemma is_hex_digit_ascii_upper [simp]: "is_hex_digit (ascii_upper c) = is_hex_digit c"
  by (simp add: is_hex_digit_def)

lemma is_js_space_ascii_upper [simp]: "is_js_space (ascii_upper c) = is_js_space c"
  by (simp add: is_js_space_def ascii_upper_eq_iff char_eq_of_char [of c]) auto

lemma strip_sign_ascii_upper:
  "strip_sign (map ascii_upper s) = (fst (strip_sign s), map ascii_upper (snd (strip_sign s)))"
  by (cases s) (simp_all add: strip_sign_def)

lemma take2_ascii_upper_0X:
  "take 2 (map ascii_upper s) = ''0X'' \<longleftrightarrow> take 2 s = ''0x'' \<or> take 2 s = ''0X''"
  by (cases s; cases "tl s") auto

lemma strip_hex_prefix_ascii_upper:
  "strip_hex_prefix (map ascii_upper s) = map ascii_upper (strip_hex_prefix s)"
proof -
  have "take 2 (map ascii_upper s) \<noteq> ''0x''"
    by (cases s; cases "tl s") auto
  then show ?thesis
    by (auto simp: strip_hex_prefix_def take2_ascii_upper_0X drop_map)
qed

lemma hex_of_digits_ascii_upper: "hex_of_digits (map ascii_upper ds) = hex_of_digits ds"
  by (simp add: hex_of_digits_def foldl_map)

lemma parse_int_16_ascii_upper: "parse_int_16 (map ascii_upper s) = parse_int_16 s"
proof -
  have "dropWhile is_js_space (map ascii_upper s) = map ascii_upper (dropWhile is_js_space s)"
    by (simp add: dropWhile_map comp_def)
  moreover have "takeWhile is_hex_digit (map ascii_upper r) = map ascii_upper (takeWhile is_hex_digit r)"
    for r by (simp add: takeWhile_map comp_def)
  ultimately show ?thesis
    by (simp add: parse_int_16_def strip_sign_ascii_upper strip_hex_prefix_ascii_upper
        hex_of_digits_ascii_upper split_beta)
qed

lemma replace_first_map:
  assumes "\<And>x. f x = c \<longleftrightarrow> x = c"
  shows "replace_first c (map f s) = map f (replace_first c s)"
  using assms by (induction s) auto

lemma normalize_hex_ascii_upper:
  "normalize_hex (map ascii_upper s) = map ascii_upper (normalize_hex s)"
proof -
  have "replace_first CHR ''#'' (map ascii_upper s) = map ascii_upper (replace_first CHR ''#'' s)"
    by (rule replace_first_map) simp
  then show ?thesis by (simp add: normalize_hex_def Let_def)
qed

lemma js_substring_map: "js_substring (map f s) i j = map f (js_substring s i j)"
  by (simp add: js_substring_def Let_def take_map drop_map)

theorem hexToRGBA_ascii_upper: "hexToRGBA (map ascii_upper s) k = hexToRGBA s k"
  by (simp add: hexToRGBA_def rgb_channels_def Let_def normalize_hex_ascii_upper
      js_substring_map parse_int_16_ascii_upper)

subsection \<open>The opacity and well-formed colours\<close>

lemma hexToRGBA_suffix: "\<exists>p. hexToRGBA c k = ''rgba('' @ p @ '', '' @ opacity_str k @ '')''"
  by (auto simp: hexToRGBA_def split: prod.split)

lemma opacity_str_consts [simp]: "opacity_str 16 = ''0.16''" "opacity_str 24 = ''0.24''"
  by (simp_all add: opacity_str_def js_eval)

text \<open>A well-formed colour, in either case and either length, gives three byte channels:
  no \<open>NaN\<close> and no sign.\<close>

lemma is_hex_digit_not_special:
  assumes "is_hex_digit c"
  shows "\<not> is_js_space c" "c \<noteq> CHR ''-''" "c \<noteq> CHR ''+''" "c \<noteq> CHR ''#''" "c \<noteq> CHR ''x''"
    "c \<noteq> CHR ''X''"
  using assms by (auto simp: is_hex_digit_def hex_digit_val_def is_js_space_def Let_def split: if_splits)

lemma parse_int_16_two_digits:
  assumes "is_hex_digit a" and "is_hex_digit b"
  shows "parse_int_16 [a, b] = Some (int (16 * hex_val a + hex_val b))"
  using is_hex_digit_not_special [OF assms(1)] is_hex_digit_not_special [OF assms(2)] assms
  by (simp add: parse_int_16_def strip_sign_def strip_hex_prefix_def hex_of_digits_def hex_val_def)

lemma hex_val_less: "hex_val c < 16"
  by (auto simp: hex_val_def dest: hex_digit_val_less split: option.split)

lemma byte_less: "16 * hex_val a + hex_val b < 256"
  using hex_val_less [of a] hex_val_less [of b] by linarith

lemma normalize_hex_color_digits:
  assumes "is_hex_color c"
  obtains d1 d2 d3 d4 d5 d6 where "normalize_hex c = [d1, d2, d3, d4, d5, d6]"
    and "list_all is_hex_digit [d1, d2, d3, d4, d5, d6]"
proof -
  from assms obtain ds where c: "c = CHR ''#'' # ds" and l: "length ds = 6 \<or> length ds = 3"
    and h: "list_all is_hex_digit ds"
    by (auto simp: is_hex_color_def split: list.splits)
  from l show ?thesis
  proof
    assume "length ds = 6"
    then obtain a b e f g i where "ds = [a, b, e, f, g, i]"
      by (auto simp: length_Suc_conv numeral_eq_Suc)
    with c h show ?thesis using that by (simp add: normalize_hex_def)
  next
    assume "length ds = 3"
    then obtain a b e where "ds = [a, b, e]"
      by (auto simp: length_Suc_conv numeral_eq_Suc)
    with c h show ?thesis using that by (simp add: normalize_hex_def)
  qed
qed

theorem hexToRGBA_valid:
  assumes "is_hex_color c"
  shows "\<exists>r g b. r < 256 \<and> g < 256 \<and> b < 256 \<and>
    hexToRGBA c k = ''rgba('' @ dec_string r @ '', '' @ dec_string g @ '', '' @ dec_string b @
      '', '' @ opacity_str k @ '')''"
proof -
  obtain d1 d2 d3 d4 d5 d6 where n: "normalize_hex c = [d1, d2, d3, d4, d5, d6]"
    and h: "list_all is_hex_digit [d1, d2, d3, d4, d5, d6]"
    using assms by (rule normalize_hex_color_digits)
  have "rgb_channels c = (Some (int (16 * hex_val d1 + hex_val d2)),
      Some (int (16 * hex_val d3 + hex_val d4)), Some (int (16 * hex_val d5 + hex_val d6)))"
    using h by (simp add: rgb_channels_def n js_substring_def parse_int_16_two_digits)
  moreover have "nat (16 * int x + int y) = 16 * x + y" for x y :: nat
    by (simp add: nat_add_distrib nat_mult_distrib)
  ultimately show ?thesis
    using byte_less [of d1 d2] byte_less [of d3 d4] byte_less [of d5 d6]
    by (simp add: hexToRGBA_def js_number_str_def) blast
qed

end
