(* ===== verification/Alerts.thy ===== *)
theory Alerts
  imports Theme HexToRgba
begin

text \<open>
  The alert style overrides of \<open>src/infra/dashboard/src/@core/theme/overrides/alerts.ts\<close>.
  \<open>Alert()\<close> returns \<open>{ MuiAlert: { styleOverrides: { ... } } }\<close>; each entry of
  \<open>styleOverrides\<close> is a function of the theme returning a style object, and is one
  definition here, under the source's key (\<open>root\<close> is \<open>root_override\<close>, since
  \<open>root\<close> names the n-th root of the library).  A function body is an object literal
  whose properties JavaScript evaluates in order: a property read that raises ends the
  evaluation with that \<open>TypeError\<close>, which \<open>bind_js\<close> threads through; a property
  that reads \<open>undefined\<close> is kept as \<open>SUndef\<close>.  The reads of one palette colour
  that the source repeats in a body are read once, since repeating a read of the same
  property gives the same value.
\<close>

type_synonym style_fn = "theme \<Rightarrow> style_value js_result"

section \<open>The base rule\<close>

definition root_override :: style_fn where
  "root_override theme =
     bind_js (read_white (common (palette theme))) (\<lambda>w.
     Inr (SObj
       [(''& .MuiAlertTitle-root'', SObj
           [(''fontWeight'', SNum 600),
            (''marginBottom'', spacing theme [8 / 5])]),
        (''& a'', SObj
           [(''fontWeight'', SNum 500),
            (''color'', SStr ''inherit'')]),
        (''& .MuiAlert-icon'', SObj
           [(''marginRight'', spacing theme [3])]),
        (''&.MuiAlert-standard, &.MuiAlert-outlined, &.MuiAlert-filled'', SObj
           [(''& .MuiAlert-icon'', SObj
              [(''opacity'', SNum 1),
               (''borderRadius'', SStr ''50%''),
               (''fontSize'', SStr ''1.125rem''),
               (''height'', SStr ''fit-content''),
               (''padding'', spacing theme [1]),
               (''marginTop'', spacing theme [5 / 4]),
               (''color'', color_value w)])]),
        (''& .MuiAlert-message'', SObj
           [(''fontSize'', SStr ''1rem''),
            (''padding'', spacing theme [7 / 4, 0])])]))"

section \<open>The standard variant\<close>

definition standardSuccess :: "theme \<Rightarrow> style_value js_result" where
  "standardSuccess theme =
     bind_js (read_main (success (palette theme))) (\<lambda>c.
     bind_js (hexToRGBA_js c 16) (\<lambda>bg.
     bind_js (hexToRGBA_js c 24) (\<lambda>ring.
     Inr (SObj
       [(''color'', color_value c),
        (''backgroundColor'', SStr bg),
        (''& .MuiAlertTitle-root'', SObj [(''color'', color_value c)]),
        (''& .MuiAlert-icon'', SObj
           [(''backgroundColor'', color_value c),
            (''boxShadow'', SStr (''0px 0px 0px 3px '' @ ring))])]))))"

definition standardInfo :: "theme \<Rightarrow> style_value js_result" where
  "standardInfo theme =
     bind_js (read_main (info (palette theme))) (\<lambda>c.
     bind_js (hexToRGBA_js c 16) (\<lambda>bg.
     bind_js (hexToRGBA_js c 24) (\<lambda>ring.
     Inr (SObj
       [(''color'', color_value c),
        (''backgroundColor'', SStr bg),
        (''& .MuiAlertTitle-root'', SObj [(''color'', color_value c)]),
        (''& .MuiAlert-icon'', SObj
           [(''backgroundColor'', color_value c),
            (''boxShadow'', SStr (''0px 0px 0px 3px '' @ ring))])]))))"

definition standardWarning :: "theme \<Rightarrow> style_value js_result" where
  "standardWarning theme =
     bind_js (read_main (warning (palette theme))) (\<lambda>c.
     bind_js (hexToRGBA_js c 16) (\<lambda>bg.
     bind_js (hexToRGBA_js c 24) (\<lambda>ring.
     Inr (SObj
       [(''color'', color_value c),
        (''backgroundColor'', SStr bg),
        (''& .MuiAlertTitle-root'', SObj [(''color'', color_value c)]),
        (''& .MuiAlert-icon'', SObj
           [(''backgroundColor'', color_value c),
            (''boxShadow'', SStr (''0px 0px 0px 3px '' @ ring))])]))))"

definition standardError :: "theme \<Rightarrow> style_value js_result" where
  "standardError theme =
     bind_js (read_main (error (palette theme))) (\<lambda>c.
     bind_js (hexToRGBA_js c 16) (\<lambda>bg.
     bind_js (hexToRGBA_js c 24) (\<lambda>ring.
     Inr (SObj
       [(''color'', color_value c),
        (''backgroundColor'', SStr bg),
        (''& .MuiAlertTitle-root'', SObj [(''color'', color_value c)]),
        (''& .MuiAlert-icon'', SObj
           [(''backgroundColor'', color_value c),
            (''boxShadow'', SStr (''0px 0px 0px 3px '' @ ring))])]))))"

section \<open>The outlined variant\<close>

definition outlinedSuccess :: "theme \<Rightarrow> style_value js_result" where
  "outlinedSuccess theme =
     bind_js (read_main (success (palette theme))) (\<lambda>c.
     bind_js (hexToRGBA_js c 24) (\<lambda>ring.
     Inr (SObj
       [(''color'', color_value c),
        (''borderColor'', color_value c),
        (''& .MuiAlertTitle-root'', SObj [(''color'', color_value c)]),
        (''& .MuiAlert-icon'', SObj
           [(''backgroundColor'', color_value c),
            (''boxShadow'', SStr (''0px 0px 0px 3px '' @ ring))])])))"

definition outlinedInfo :: "theme \<Rightarrow> style_value js_result" where
  "outlinedInfo theme =
     bind_js (read_main (info (palette theme))) (\<lambda>c.
     bind_js (hexToRGBA_js c 24) (\<lambda>ring.
     Inr (SObj
       [(''color'', color_value c),
        (''borderColor'', color_value c),
        (''& .MuiAlertTitle-root'', SObj [(''color'', color_value c)]),
        (''& .MuiAlert-icon'', SObj
           [(''backgroundColor'', color_value c),
            (''boxShadow'', SStr (''0px 0px 0px 3px '' @ ring))])])))"

definition outlinedWarning :: "theme \<Rightarrow> style_value js_result" where
  "outlinedWarning theme =
     bind_js (read_main (warning (palette theme))) (\<lambda>c.
     bind_js (hexToRGBA_js c 24) (\<lambda>ring.
     Inr (SObj
       [(''color'', color_value c),
        (''borderColor'', color_value c),
        (''& .MuiAlertTitle-root'', SObj [(''color'', color_value c)]),
        (''& .MuiAlert-icon'', SObj
           [(''backgroundColor'', color_value c),
            (''boxShadow'', SStr (''0px 0px 0px 3px '' @ ring))])])))"

definition outlinedError :: "theme \<Rightarrow> style_value js_result" where
  "outlinedError theme =
     bind_js (read_main (error (palette theme))) (\<lambda>c.
     bind_js (hexToRGBA_js c 24) (\<lambda>ring.
     Inr (SObj
       [(''color'', color_value c),
        (''borderColor'', color_value c),
        (''& .MuiAlertTitle-root'', SObj [(''color'', color_value c)]),
        (''& .MuiAlert-icon'', SObj
           [(''backgroundColor'', color_value c),
            (''boxShadow'', SStr (''0px 0px 0px 3px '' @ ring))])])))"

section \<open>The filled variant\<close>

definition filledSuccess :: "theme \<Rightarrow> style_value js_result" where
  "filledSuccess theme =
     bind_js (read_white (common (palette theme))) (\<lambda>w.
     bind_js (read_main (success (palette theme))) (\<lambda>c.
     bind_js (hexToRGBA_js w 24) (\<lambda>ring.
     Inr (SObj
       [(''& .MuiAlert-icon'', SObj
           [(''backgroundColor'', color_value w),
            (''color'', SStr (template_str c @ '' !important'')),
            (''boxShadow'', SStr (''0px 0px 0px 3px '' @ ring))])]))))"

definition filledInfo :: "theme \<Rightarrow> style_value js_result" where
  "filledInfo theme =
     bind_js (read_white (common (palette theme))) (\<lambda>w.
     bind_js (read_main (info (palette theme))) (\<lambda>c.
     bind_js (hexToRGBA_js w 24) (\<lambda>ring.
     Inr (SObj
       [(''& .MuiAlert-icon'', SObj
           [(''backgroundColor'', color_value w),
            (''color'', SStr (template_str c @ '' !important'')),
            (''boxShadow'', SStr (''0px 0px 0px 3px '' @ ring))])]))))"

definition filledWarning :: "theme \<Rightarrow> style_value js_result" where
  "filledWarning theme =
     bind_js (read_white (common (palette theme))) (\<lambda>w.
     bind_js (read_main (warning (palette theme))) (\<lambda>c.
     bind_js (hexToRGBA_js w 24) (\<lambda>ring.
     Inr (SObj
       [(''& .MuiAlert-icon'', SObj
           [(''backgroundColor'', color_value w),
            (''color'', SStr (template_str c @ '' !important'')),
            (''boxShadow'', SStr (''0px 0px 0px 3px '' @ ring))])]))))"

definition filledError :: "theme \<Rightarrow> style_value js_result" where
  "filledError theme =
     bind_js (read_white (common (palette theme))) (\<lambda>w.
     bind_js (read_main (error (palette theme))) (\<lambda>c.
     bind_js (hexToRGBA_js w 24) (\<lambda>ring.
     Inr (SObj
       [(''& .MuiAlert-icon'', SObj
           [(''backgroundColor'', color_value w),
            (''color'', SStr (template_str c @ '' !important'')),
            (''boxShadow'', SStr (''0px 0px 0px 3px '' @ ring))])]))))"

definition filled :: style_fn where
  "filled theme =
     bind_js (read_white (common (palette theme))) (\<lambda>w.
     Inr (SObj [(''fontWeight'', SNum 400), (''color'', color_value w)]))"

section \<open>The component's overrides\<close>

text \<open>\<open>styleOverrides\<close>, keys in the order the source writes them, and \<open>Alert()\<close>.\<close>

definition alert_style_overrides :: "(string \<times> style_fn) list" where
  "alert_style_overrides =
     [(''root'', root_override),
      (''standardSuccess'', standardSuccess),
      (''standardInfo'', standardInfo),
      (''standardWarning'', standardWarning),
      (''standardError'', standardError),
      (''outlinedSuccess'', outlinedSuccess),
      (''outlinedInfo'', outlinedInfo),
      (''outlinedWarning'', outlinedWarning),
      (''outlinedError'', outlinedError),
      (''filledSuccess'', filledSuccess),
      (''filledInfo'', filledInfo),
      (''filledWarning'', filledWarning),
      (''filledError'', filledError),
      (''filled'', filled)]"

definition Alert :: "unit \<Rightarrow> (string \<times> (string \<times> (string \<times> style_fn) list) list) list" where
  "Alert _ = [(''MuiAlert'', [(''styleOverrides'', alert_style_overrides)])]"

lemmas alert_rule_defs = root_override_def
  standardSuccess_def standardInfo_def standardWarning_def standardError_def
  outlinedSuccess_def outlinedInfo_def outlinedWarning_def outlinedError_def
  filledSuccess_def filledInfo_def filledWarning_def filledError_def filled_def

section \<open>Observing a rule\<close>

text \<open>
  The result of the rule stored under a key, applied to a theme, as the host calls it,
  and the value a rendered rule gives at a path of keys (\<open>None\<close> when the key is not
  an override, the rule raises, or the path leads nowhere).
\<close>

definition alert_rule :: "string \<Rightarrow> theme \<Rightarrow> style_value js_result option" where
  "alert_rule key theme = map_option (\<lambda>f. f theme) (map_of alert_style_overrides key)"

definition style_at :: "string \<Rightarrow> theme \<Rightarrow> string list \<Rightarrow> style_value option" where
  "style_at key theme path =
     (case alert_rule key theme of Some (Inr obj) \<Rightarrow> style_get obj path | _ \<Rightarrow> None)"

end
