(* ===== verification/Alert_Spec.thy ===== *)
theory Alert_Spec
  imports Theme HexToRgba
begin

text \<open>
  What the alert overrides promise, written independently of \<open>alerts.ts\<close>: the
  table-driven construction the spec describes (one rule-construction function applied
  to every variant and severity, under the key \<open>variant ^ Severity\<close>), and how the host
  (MUI's \<open>Alert\<close>) applies a component's \<open>styleOverrides\<close> to an alert of a given
  variant and severity: the \<open>root\<close> rule, then the rule named by the variant, then the
  one named by variant and severity, each when the overrides define it.
\<close>

section \<open>Rule keys\<close>

fun variant_name :: "variant \<Rightarrow> string" where
  "variant_name Standard = ''standard''"
| "variant_name Outlined = ''outlined''"
| "variant_name Filled = ''filled''"

fun severity_name :: "severity \<Rightarrow> string" where
  "severity_name Success = ''Success''"
| "severity_name Info = ''Info''"
| "severity_name Warning = ''Warning''"
| "severity_name Error = ''Error''"

definition override_key :: "variant \<Rightarrow> severity \<Rightarrow> string" where
  "override_key v s = variant_name v @ severity_name s"

section \<open>One rule-construction function\<close>

text \<open>
  The icon of every variant is a disc of a solid colour ringed by a 3px shadow of the
  same colour at opacity 0.24; standard and outlined alerts draw it in the severity's
  colour and also colour the title, a filled alert draws it white and forces the icon
  glyph to the severity's colour.
\<close>

definition ring_shadow :: "string \<Rightarrow> string" where
  "ring_shadow rgba = ''0px 0px 0px 3px '' @ rgba"

definition tinted_parts :: "string option \<Rightarrow> string \<Rightarrow> (string \<times> style_value) list" where
  "tinted_parts c ring =
     [(''& .MuiAlertTitle-root'', SObj [(''color'', color_value c)]),
      (''& .MuiAlert-icon'', SObj
         [(''backgroundColor'', color_value c), (''boxShadow'', SStr (ring_shadow ring))])]"

fun severity_rule :: "variant \<Rightarrow> severity \<Rightarrow> theme \<Rightarrow> style_value js_result" where
  "severity_rule Standard s theme =
     bind_js (read_main (severity_entry (palette theme) s)) (\<lambda>c.
     bind_js (hexToRGBA_js c 16) (\<lambda>bg.
     bind_js (hexToRGBA_js c 24) (\<lambda>ring.
     Inr (SObj ([(''color'', color_value c), (''backgroundColor'', SStr bg)] @
                tinted_parts c ring)))))"
| "severity_rule Outlined s theme =
     bind_js (read_main (severity_entry (palette theme) s)) (\<lambda>c.
     bind_js (hexToRGBA_js c 24) (\<lambda>ring.
     Inr (SObj ([(''color'', color_value c), (''borderColor'', color_value c)] @
                tinted_parts c ring))))"
| "severity_rule Filled s theme =
     bind_js (read_white (common (palette theme))) (\<lambda>w.
     bind_js (read_main (severity_entry (palette theme) s)) (\<lambda>c.
     bind_js (hexToRGBA_js w 24) (\<lambda>ring.
     Inr (SObj [(''& .MuiAlert-icon'', SObj
                  [(''backgroundColor'', color_value w),
                   (''color'', SStr (template_str c @ '' !important'')),
                   (''boxShadow'', SStr (ring_shadow ring))])]))))"

definition alert_table :: "(string \<times> (theme \<Rightarrow> style_value js_result)) list" where
  "alert_table =
     [(override_key v s, severity_rule v s). v \<leftarrow> all_variants, s \<leftarrow> all_severities]"

section \<open>How the host applies overrides\<close>

text \<open>
  MUI v5 styles a component through \<open>createStyled\<close> of \<open>@mui/system\<close>: it first calls
  every entry of the theme's \<open>styleOverrides\<close> that is a function with the theme, in the
  order of \<open>Object.entries\<close> (the order the entries are written), and a call that raises
  aborts the render of the component, whichever entries it would use.  The \<open>Alert\<close>'s
  \<open>overridesResolver\<close> then picks \<open>[styles.root, styles[variant],
  styles[variant + capitalize(color || severity)]]\<close>; an undefined entry contributes
  nothing.  The severity \<open>s\<close> below is that colour: \<open>ownerState.color\<close> when the alert is
  given one, its \<open>severity\<close> otherwise.
\<close>

definition applied_keys :: "variant \<Rightarrow> severity \<Rightarrow> string list" where
  "applied_keys v s = [''root'', variant_name v, override_key v s]"

definition render_alert ::
  "(string \<times> (theme \<Rightarrow> style_value js_result)) list \<Rightarrow> theme \<Rightarrow> variant \<Rightarrow> severity \<Rightarrow>
   style_value list js_result" where
  "render_alert overrides theme v s =
     bind_js
       (foldr (\<lambda>(k, f) rest. bind_js (f theme) (\<lambda>x. bind_js rest (\<lambda>r. Inr ((k, x) # r))))
          overrides (Inr []))
       (\<lambda>resolved. Inr (List.map_filter (map_of resolved) (applied_keys v s)))"

lemma resolve_overrides_Inr:
  assumes "\<forall>(k, f) \<in> set ovs. \<exists>x. f t = Inr x"
  shows "foldr (\<lambda>(k, f) rest. bind_js (f t) (\<lambda>x. bind_js rest (\<lambda>r. Inr ((k, x) # r)))) ovs (Inr []) =
    Inr (map (\<lambda>(k, f). (k, projr (f t))) ovs)"
  using assms by (induction ovs) auto

lemma resolve_overrides_Inl:
  assumes "(k, f) \<in> set ovs" and "f t = Inl e"
  shows "\<exists>e'. foldr (\<lambda>(k, f) rest. bind_js (f t) (\<lambda>x. bind_js rest (\<lambda>r. Inr ((k, x) # r)))) ovs (Inr []) =
    Inl e'"
  using assms
proof (induction ovs)
  case (Cons kf ovs)
  then show ?case
    by (cases kf; cases "snd kf t"; auto simp: bind_js_def split: sum.split)
qed simp

lemma override_key_inj: "override_key v s = override_key v' s' \<longleftrightarrow> v = v' \<and> s = s'"
  by (cases v; cases v'; cases s; cases s') (simp_all add: override_key_def)

lemma override_key_not_root_filled [simp]:
  "override_key v s \<noteq> ''root''" "override_key v s \<noteq> ''filled''"
  by (cases v; cases s; simp add: override_key_def)+

lemma distinct_alert_table_keys: "distinct (map fst alert_table)"
  by (simp add: alert_table_def all_variants_def all_severities_def override_key_def)

end
