(* ===== verification/Alert_Facts.thy ===== *)
theory Alert_Facts
  imports Alerts Alert_Spec
begin

text \<open>
  The facts the properties of the alert rules share: each hand-written rule of
  \<open>alerts.ts\<close> is the specification's \<open>severity_rule\<close> at its variant and severity,
  the rule the host finds under each key, the property reads on a palette that defines a
  colour, and the example theme evaluated.
\<close>

lemma standard_rules_refine:
  "standardSuccess = severity_rule Standard Success" "standardInfo = severity_rule Standard Info"
  "standardWarning = severity_rule Standard Warning" "standardError = severity_rule Standard Error"
  by (simp_all add: fun_eq_iff alert_rule_defs tinted_parts_def ring_shadow_def)

lemma outlined_rules_refine:
  "outlinedSuccess = severity_rule Outlined Success" "outlinedInfo = severity_rule Outlined Info"
  "outlinedWarning = severity_rule Outlined Warning" "outlinedError = severity_rule Outlined Error"
  by (simp_all add: fun_eq_iff alert_rule_defs tinted_parts_def ring_shadow_def)

lemma filled_rules_refine:
  "filledSuccess = severity_rule Filled Success" "filledInfo = severity_rule Filled Info"
  "filledWarning = severity_rule Filled Warning" "filledError = severity_rule Filled Error"
  by (simp_all add: fun_eq_iff alert_rule_defs ring_shadow_def)

lemmas rules_refine = standard_rules_refine outlined_rules_refine filled_rules_refine

text \<open>The rule the host finds under a variant-and-severity key.\<close>

lemma map_of_override_key [simp]:
  "map_of alert_style_overrides (override_key v s) = Some (severity_rule v s)"
  by (cases v; cases s) (simp_all add: alert_style_overrides_def override_key_def rules_refine)

lemma map_of_root_filled [simp]:
  "map_of alert_style_overrides ''root'' = Some root_override"
  "map_of alert_style_overrides ''filled'' = Some filled"
  by (simp_all add: alert_style_overrides_def)

lemma alert_rule_key [simp]: "alert_rule (override_key v s) t = Some (severity_rule v s t)"
  by (simp add: alert_rule_def)

lemma alert_rule_root_filled [simp]:
  "alert_rule ''root'' t = Some (root_override t)" "alert_rule ''filled'' t = Some (filled t)"
  by (simp_all add: alert_rule_def)

lemma read_main_severity_main:
  "severity_main p s = Some c \<Longrightarrow> read_main (severity_entry p s) = Inr (Some c)"
  by (auto simp: severity_main_def bind_eq_Some_conv)

lemma read_white_white_of:
  "white_of p = Some w \<Longrightarrow> read_white (common p) = Inr (Some w)"
  by (auto simp: white_of_def bind_eq_Some_conv)

lemmas rule_eval = style_at_def tinted_parts_def ring_shadow_def
  read_main_severity_main read_white_white_of

lemma map_of_variant_name:
  "map_of alert_style_overrides (variant_name v) = (if v = Filled then Some filled else None)"
  by (cases v) (simp_all add: alert_style_overrides_def)

lemma alert_style_overrides_cases:
  assumes "(k, f) \<in> set alert_style_overrides"
  shows "f = root_override \<or> f = filled \<or> (\<exists>v s. f = severity_rule v s)"
  using assms by (auto simp: alert_style_overrides_def rules_refine)

lemma severity_rule_complete:
  assumes "palette_complete (palette t)"
  shows "\<exists>obj. severity_rule v s t = Inr obj \<and> keys_distinct obj"
proof -
  obtain pc c where "severity_entry (palette t) s = Some pc" "main pc = Some c"
    using assms by (rule palette_complete_main)
  moreover obtain cc w where "common (palette t) = Some cc" "white cc = Some w"
    using assms by (rule palette_complete_white)
  ultimately show ?thesis
    by (cases v) (simp_all add: tinted_parts_def)
qed

section \<open>The host's render of the alert overrides\<close>

text \<open>On a complete palette every entry returns a style, and the host draws an alert
  with the base rule, the global \<open>filled\<close> rule for a filled alert, and its severity
  rule; on any other palette some entry raises, and the render of every alert fails.\<close>

lemma overrides_complete:
  assumes "palette_complete (palette t)"
  shows "\<forall>(k, f) \<in> set alert_style_overrides. \<exists>x. f t = Inr x"
proof -
  obtain cc w where "common (palette t) = Some cc" "white cc = Some w"
    using assms by (rule palette_complete_white)
  then have "\<exists>x. root_override t = Inr x" "\<exists>x. filled t = Inr x"
    by (simp_all add: root_override_def filled_def)
  then show ?thesis
    using alert_style_overrides_cases severity_rule_complete [OF assms] by blast
qed

lemma render_alert_complete:
  assumes "palette_complete (palette t)"
  shows "render_alert alert_style_overrides t v s =
    Inr (projr (root_override t) # (if v = Filled then [projr (filled t)] else []) @
         [projr (severity_rule v s t)])"
  by (simp add: render_alert_def resolve_overrides_Inr [OF overrides_complete [OF assms]]
      map_of_map applied_keys_def map_of_variant_name)

lemma some_override_raises:
  assumes "\<not> palette_complete (palette t)"
  shows "\<exists>k f e. (k, f) \<in> set alert_style_overrides \<and> f t = Inl e"
proof (cases "white_of (palette t) = None")
  case True
  then have "\<exists>e. filledSuccess t = Inl e"
    by (cases "common (palette t)") (auto simp: white_of_def filledSuccess_def bind_js_def split: sum.split)
  moreover have "(''filledSuccess'', filledSuccess) \<in> set alert_style_overrides"
    by (simp add: alert_style_overrides_def)
  ultimately show ?thesis by blast
next
  case False
  then obtain s where s: "severity_main (palette t) s = None"
    using assms by (auto simp: palette_complete_def list_all_iff all_severities_def
        elim: severity.exhaust)
  then have "\<exists>e. severity_rule Standard s t = Inl e"
    by (cases "severity_entry (palette t) s") (auto simp: severity_main_def)
  moreover have "(override_key Standard s, severity_rule Standard s) \<in> set alert_style_overrides"
    using map_of_override_key [of Standard s] by (rule map_of_SomeD)
  ultimately show ?thesis by blast
qed

lemma render_alert_incomplete:
  assumes "\<not> palette_complete (palette t)"
  shows "\<exists>e. render_alert alert_style_overrides t v s = Inl e"
proof -
  obtain k f e where "(k, f) \<in> set alert_style_overrides" "f t = Inl e"
    using some_override_raises [OF assms] by blast
  from resolve_overrides_Inl [OF this] show ?thesis
    by (auto simp: render_alert_def)
qed

lemma example_palette_simps [simp]:
  "severity_main example_palette Success = Some ''#56CA00''"
  "severity_main example_palette Info = Some ''#16B1FF''"
  "severity_main example_palette Warning = Some ''#FFB400''"
  "severity_main example_palette Error = Some ''#FF4C51''"
  "white_of example_palette = Some ''#FFF''"
  "common example_palette = Some \<lparr>white = Some ''#FFF''\<rparr>"
  by (simp_all add: example_palette_def severity_main_def white_of_def)

lemma example_palette_complete [simp]: "palette_complete example_palette"
  by (simp add: palette_complete_def all_severities_def)

lemma example_theme_simps [simp]:
  "palette example_theme = example_palette" "spacing example_theme = mui_spacing 8"
  by (simp_all add: example_theme_def)

end
