(* ===== verification/Cascade.thy ===== *)
theory Cascade
  imports Alert_Spec "HOL-Library.Product_Lexorder" "HOL-Library.Multiset"
begin

text \<open>
  How the host turns the style objects of an alert into the styles of its elements.
  This is MUI and emotion, not code of the repository: it is stated here so that
  properties of what the overrides draw can be proved.  Emotion serialises the rules
  the host applies (\<open>render_alert\<close>) into one class, in order; an entry whose value is
  an object is a nested rule whose key is a selector, in which \<open>&\<close> stands for the
  enclosing selector and a comma separates alternatives; every other entry is a
  declaration.  The browser then picks, for an element and a property, among the
  declarations whose selector matches the element: an \<open>!important\<close> one first, then the
  most specific (classes, then tags), then the last written.  The alert is the element
  tree MUI renders: a root with the generated class (\<open>&\<close>) and the classes
  \<open>MuiAlert-root\<close>, \<open>MuiAlert-<variant><Severity>\<close> and \<open>MuiAlert-<variant>\<close>, an icon,
  and a message holding the title.  Only the declarations of the overrides take part;
  MUI's own default styles for the component are not modelled.
\<close>

section \<open>Selectors\<close>

datatype simple_sel = Amp | Cls string | Tag string

type_synonym compound = "simple_sel list"
type_synonym selector = "compound list"

fun split_at_char :: "char \<Rightarrow> string \<Rightarrow> string list" where
  "split_at_char d [] = [[]]"
| "split_at_char d (x # xs) =
     (if x = d then [] # split_at_char d xs
      else (case split_at_char d xs of [] \<Rightarrow> [[x]] | w # ws \<Rightarrow> (x # w) # ws))"

definition parse_word :: "string \<Rightarrow> compound" where
  "parse_word w =
     (case split_at_char CHR ''.'' w of
        [] \<Rightarrow> []
      | p # cls \<Rightarrow> (if p = ''&'' then [Amp] else if p = [] then [] else [Tag p]) @ map Cls cls)"

definition parse_key :: "string \<Rightarrow> selector list" where
  "parse_key k =
     map (\<lambda>part. map parse_word (filter (\<lambda>w. w \<noteq> []) (split_at_char CHR '' '' part)))
       (split_at_char CHR '','' k)"

fun nest :: "selector \<Rightarrow> selector \<Rightarrow> selector" where
  "nest p [] = p"
| "nest p (c # cs) =
     (if Amp \<in> set c then butlast p @ [last p @ removeAll Amp c] @ cs else p @ c # cs)"

section \<open>Flattening nested rules into declarations\<close>

type_synonym decl = "selector \<times> string \<times> style_value"

fun flatten :: "selector \<Rightarrow> style_value \<Rightarrow> decl list" where
  "flatten sel (SObj ps) =
     concat (map (\<lambda>(k, v).
                    if is_style_obj v then concat (map (\<lambda>c. flatten (nest sel c) v) (parse_key k))
                    else [(sel, k, v)]) ps)"
| "flatten sel _ = []"

section \<open>Elements, matching and the cascade\<close>

record elem =
  tag :: string
  classes :: "string list"
  styled :: bool

fun simple_matches :: "simple_sel \<Rightarrow> elem \<Rightarrow> bool" where
  "simple_matches Amp e \<longleftrightarrow> styled e"
| "simple_matches (Cls c) e \<longleftrightarrow> c \<in> set (classes e)"
| "simple_matches (Tag t) e \<longleftrightarrow> tag e = t"

definition compound_matches :: "compound \<Rightarrow> elem \<Rightarrow> bool" where
  "compound_matches c e \<longleftrightarrow> list_all (\<lambda>x. simple_matches x e) c"

fun ancestors_match :: "compound list \<Rightarrow> elem list \<Rightarrow> bool" where
  "ancestors_match [] es \<longleftrightarrow> True"
| "ancestors_match (c # cs) [] \<longleftrightarrow> False"
| "ancestors_match (c # cs) (e # es) \<longleftrightarrow>
     (compound_matches c e \<and> ancestors_match cs es) \<or> ancestors_match (c # cs) es"

definition selector_matches :: "selector \<Rightarrow> elem list \<Rightarrow> bool" where
  "selector_matches sel path \<longleftrightarrow>
     sel \<noteq> [] \<and> path \<noteq> [] \<and> compound_matches (last sel) (last path) \<and>
     ancestors_match (butlast sel) (butlast path)"

fun is_class_sel :: "simple_sel \<Rightarrow> bool" where
  "is_class_sel (Tag t) \<longleftrightarrow> False"
| "is_class_sel _ \<longleftrightarrow> True"

definition specificity :: "selector \<Rightarrow> nat \<times> nat" where
  "specificity sel =
     (length (filter is_class_sel (concat sel)), length (filter (\<lambda>x. \<not> is_class_sel x) (concat sel)))"

definition important_mark :: string where
  "important_mark = '' !important''"

definition ends_with :: "string \<Rightarrow> string \<Rightarrow> bool" where
  "ends_with x s \<longleftrightarrow> length x \<le> length s \<and> drop (length s - length x) s = x"

fun is_important :: "style_value \<Rightarrow> bool" where
  "is_important (SStr s) \<longleftrightarrow> ends_with important_mark s"
| "is_important _ \<longleftrightarrow> False"

fun strip_important :: "style_value \<Rightarrow> style_value" where
  "strip_important (SStr s) =
     SStr (if ends_with important_mark s then take (length s - length important_mark) s else s)"
| "strip_important v = v"

definition decl_rank :: "decl \<Rightarrow> bool \<times> nat \<times> nat" where
  "decl_rank d = (is_important (snd (snd d)), specificity (fst d))"

definition pick_decl :: "decl option \<Rightarrow> decl \<Rightarrow> decl option" where
  "pick_decl acc d =
     (case acc of None \<Rightarrow> Some d | Some a \<Rightarrow> if decl_rank a \<le> decl_rank d then Some d else Some a)"

definition cascade :: "decl list \<Rightarrow> elem list \<Rightarrow> string \<Rightarrow> style_value option" where
  "cascade ds path p =
     map_option (\<lambda>d. strip_important (snd (snd d)))
       (foldl pick_decl None (filter (\<lambda>d. fst (snd d) = p \<and> selector_matches (fst d) path) ds))"

text \<open>The cascade as CSS states it: among the declarations of the property whose
  selector matches, those of the highest rank (importance, then specificity) compete, and
  the last of them in the order written wins.  \<open>cascade\<close> computes it in one pass.\<close>

definition cascade_spec :: "decl list \<Rightarrow> elem list \<Rightarrow> string \<Rightarrow> style_value option" where
  "cascade_spec ds path p =
     (let cs = filter (\<lambda>d. fst (snd d) = p \<and> selector_matches (fst d) path) ds
      in if cs = [] then None
         else Some (strip_important (snd (snd
                (last (filter (\<lambda>d. decl_rank d = Max (decl_rank ` set cs)) cs))))))"

definition alert_root :: "variant \<Rightarrow> severity \<Rightarrow> elem" where
  "alert_root v s =
     \<lparr>tag = ''div'',
      classes = [''MuiAlert-root'', ''MuiAlert-'' @ override_key v s, ''MuiAlert-'' @ variant_name v],
      styled = True\<rparr>"

definition icon_elem :: elem where
  "icon_elem = \<lparr>tag = ''div'', classes = [''MuiAlert-icon''], styled = False\<rparr>"

definition message_elem :: elem where
  "message_elem = \<lparr>tag = ''div'', classes = [''MuiAlert-message''], styled = False\<rparr>"

definition title_elem :: elem where
  "title_elem = \<lparr>tag = ''div'', classes = [''MuiTypography-root'', ''MuiAlertTitle-root''], styled = False\<rparr>"

definition rendered_decls ::
  "(string \<times> (theme \<Rightarrow> style_value js_result)) list \<Rightarrow> theme \<Rightarrow> variant \<Rightarrow> severity \<Rightarrow>
   decl list" where
  "rendered_decls overrides t v s =
     (case render_alert overrides t v s of
        Inl _ \<Rightarrow> []
      | Inr objs \<Rightarrow> concat (map (flatten [[Amp]]) objs))"

definition computed ::
  "(string \<times> (theme \<Rightarrow> style_value js_result)) list \<Rightarrow> theme \<Rightarrow> variant \<Rightarrow> severity \<Rightarrow>
   elem list \<Rightarrow> string \<Rightarrow> style_value option" where
  "computed overrides t v s path p =
     (case render_alert overrides t v s of
        Inl _ \<Rightarrow> None
      | Inr _ \<Rightarrow> cascade (rendered_decls overrides t v s) path p)"

section \<open>Value kinds of CSS properties\<close>

text \<open>The kind of value each property the overrides set takes: a number
  (\<open>fontWeight\<close>, \<open>opacity\<close>), a length from the theme's spacing (margins, padding) or a
  string (colours, shadows and the other keywords).  \<open>undefined\<close> and nested objects are
  not property values.\<close>

fun is_num :: "style_value \<Rightarrow> bool" where
  "is_num (SNum n) \<longleftrightarrow> True"
| "is_num _ \<longleftrightarrow> False"

fun is_px :: "style_value \<Rightarrow> bool" where
  "is_px (SPx ls) \<longleftrightarrow> True"
| "is_px _ \<longleftrightarrow> False"

fun is_str :: "style_value \<Rightarrow> bool" where
  "is_str (SStr x) \<longleftrightarrow> True"
| "is_str _ \<longleftrightarrow> False"

definition css_kind_ok :: "string \<Rightarrow> style_value \<Rightarrow> bool" where
  "css_kind_ok p v \<longleftrightarrow>
     (if p \<in> set [''fontWeight'', ''opacity''] then is_num v
      else if p \<in> set [''marginBottom'', ''marginRight'', ''marginTop'', ''padding''] then is_px v
      else if p \<in> set [''color'', ''backgroundColor'', ''borderColor'', ''boxShadow'', ''borderRadius'',
                       ''fontSize'', ''height''] then is_str v
      else False)"

section \<open>The order of declarations\<close>

text \<open>The browser's choice depends on the order of the declarations only among candidates
  of equal rank.  \<open>no_ties\<close> says that any two declarations of a property with the same
  rank give the same value (\<open>tie_view\<close> is the list of property, rank and value of each
  declaration); then the style of every element is the same for every order of the
  declarations (\<open>cascade_mset\<close>), so it does not matter in which order the host applies
  the rules.\<close>

definition tie_view :: "decl list \<Rightarrow> (string \<times> (bool \<times> nat \<times> nat) \<times> style_value) list" where
  "tie_view ds = map (\<lambda>d. (fst (snd d), decl_rank d, snd (snd d))) ds"

definition no_ties :: "decl list \<Rightarrow> bool" where
  "no_ties ds \<longleftrightarrow>
     (\<forall>x \<in> set (tie_view ds). \<forall>y \<in> set (tie_view ds).
        fst x = fst y \<and> fst (snd x) = fst (snd y) \<longrightarrow> snd (snd x) = snd (snd y))"

lemma no_ties_Nil [simp]: "no_ties []"
  by (simp add: no_ties_def tie_view_def)

lemma foldl_pick_decl_Some: "foldl pick_decl (Some a) xs \<noteq> None"
  by (induction xs arbitrary: a) (auto simp: pick_decl_def)

lemma foldl_pick_decl_None [simp]: "foldl pick_decl None xs = None \<longleftrightarrow> xs = []"
  by (cases xs) (simp_all add: pick_decl_def foldl_pick_decl_Some)

lemma pick_decl_cases: "pick_decl acc y = Some y \<or> pick_decl acc y = acc"
  by (simp add: pick_decl_def split: option.split)

lemma pick_decl_not_None [simp]: "pick_decl acc y \<noteq> None"
  by (cases acc) (simp_all add: pick_decl_def del: not_None_eq)

lemma pick_decl_ge:
  assumes "pick_decl acc y = Some b"
  shows "decl_rank y \<le> decl_rank b" "acc = Some a \<Longrightarrow> decl_rank a \<le> decl_rank b"
  using assms by (auto simp: pick_decl_def not_le split: option.splits if_splits)

lemma foldl_pick_decl_mem:
  "foldl pick_decl acc xs = Some d \<Longrightarrow> d \<in> set xs \<or> acc = Some d"
proof (induction xs arbitrary: acc)
  case (Cons y xs)
  have "d \<in> set xs \<or> pick_decl acc y = Some d"
    using Cons.IH [of "pick_decl acc y"] Cons.prems by simp
  then show ?case using pick_decl_cases [of acc y] by auto
qed simp

lemma foldl_pick_decl_max:
  "foldl pick_decl acc xs = Some d \<Longrightarrow> x \<in> set xs \<or> acc = Some x \<Longrightarrow> decl_rank x \<le> decl_rank d"
proof (induction xs arbitrary: acc x)
  case (Cons y xs)
  obtain b where b: "pick_decl acc y = Some b"
    using pick_decl_not_None by blast
  have ih: "z \<in> set xs \<or> z = b \<Longrightarrow> decl_rank z \<le> decl_rank d" for z
    using Cons.IH [of "pick_decl acc y" z] Cons.prems(1) b by auto
  have bd: "decl_rank b \<le> decl_rank d"
    by (rule ih) simp
  consider "x = y" | "x \<in> set xs" | "acc = Some x"
    using Cons.prems(2) by auto
  then show ?case
  proof cases
    case 1
    then show ?thesis using pick_decl_ge(1) [OF b] bd by simp
  next
    case 2
    then show ?thesis by (rule ih [OF disjI1])
  next
    case 3
    then show ?thesis using pick_decl_ge(2) [OF b 3] bd by simp
  qed
qed simp

lemma foldl_pick_decl_winner:
  assumes "foldl pick_decl None xs = Some d"
  shows "d \<in> set xs" "x \<in> set xs \<Longrightarrow> decl_rank x \<le> decl_rank d"
  using foldl_pick_decl_mem [OF assms] foldl_pick_decl_max [OF assms, of x] by simp_all

lemma no_tiesD:
  assumes "no_ties ds" and "d1 \<in> set ds" and "d2 \<in> set ds"
    and "fst (snd d1) = fst (snd d2)" and "decl_rank d1 = decl_rank d2"
  shows "snd (snd d1) = snd (snd d2)"
proof -
  have "(fst (snd d1), decl_rank d1, snd (snd d1)) \<in> set (tie_view ds)"
    "(fst (snd d2), decl_rank d2, snd (snd d2)) \<in> set (tie_view ds)"
    using assms(2,3) by (auto simp: tie_view_def)
  then show ?thesis using assms(1,4,5) unfolding no_ties_def by fastforce
qed

lemma cascade_mset:
  assumes "mset ds = mset ds'" and "no_ties ds"
  shows "cascade ds path p = cascade ds' path p"
proof -
  let ?P = "\<lambda>d. fst (snd d) = p \<and> selector_matches (fst d) path"
  have m: "mset (filter ?P ds) = mset (filter ?P ds')"
    using assms(1) by simp
  have s: "set (filter ?P ds) = set (filter ?P ds')"
    using arg_cong [OF m, of set_mset] by (simp only: set_mset_mset)
  show ?thesis
  proof (cases "filter ?P ds = []")
    case True
    moreover have "filter ?P ds' = []"
      using True mset_eq_length [OF m] by simp
    ultimately show ?thesis by (simp add: cascade_def)
  next
    case False
    then have False': "filter ?P ds' \<noteq> []"
      using mset_eq_length [OF m] by (auto simp del: filter_False)
    obtain d where d: "foldl pick_decl None (filter ?P ds) = Some d"
      using False by (cases "foldl pick_decl None (filter ?P ds)") simp_all
    obtain d' where d': "foldl pick_decl None (filter ?P ds') = Some d'"
      using False' by (cases "foldl pick_decl None (filter ?P ds')") simp_all
    have in_d: "d \<in> set (filter ?P ds)"
      by (rule foldl_pick_decl_winner(1) [OF d])
    have in_d': "d' \<in> set (filter ?P ds)"
      unfolding s by (rule foldl_pick_decl_winner(1) [OF d'])
    have "decl_rank d \<le> decl_rank d'"
      using foldl_pick_decl_winner(2) [OF d' in_d [unfolded s]] .
    moreover have "decl_rank d' \<le> decl_rank d"
      using foldl_pick_decl_winner(2) [OF d in_d'] .
    ultimately have "decl_rank d = decl_rank d'"
      by (rule order_antisym)
    then have "snd (snd d) = snd (snd d')"
      using no_tiesD [OF assms(2), of d d'] in_d in_d' by simp
    thus ?thesis using d d' by (simp add: cascade_def)
  qed
qed

section \<open>The one-pass cascade is the cascade CSS states\<close>

lemma max_rank_attained:
  assumes "xs \<noteq> []"
  shows "filter (\<lambda>d. decl_rank d = Max (decl_rank ` set xs)) xs \<noteq> []"
proof -
  have "Max (decl_rank ` set xs) \<in> decl_rank ` set xs"
    using assms by (simp add: Max_in)
  then show ?thesis by (auto simp: filter_empty_conv)
qed

lemma foldl_pick_decl_last_max:
  "foldl pick_decl None xs =
     (if xs = [] then None else Some (last (filter (\<lambda>d. decl_rank d = Max (decl_rank ` set xs)) xs)))"
proof (induction xs rule: rev_induct)
  case Nil
  then show ?case by simp
next
  case (snoc x xs)
  show ?case
  proof (cases "xs = []")
    case True
    then show ?thesis by (simp add: pick_decl_def)
  next
    case False
    let ?M = "Max (decl_rank ` set xs)"
    let ?a = "last (filter (\<lambda>d. decl_rank d = ?M) xs)"
    have fa: "foldl pick_decl None xs = Some ?a" using snoc False by simp
    have ra: "decl_rank ?a = ?M"
      using last_in_set [OF max_rank_attained [OF False]] by simp
    have M': "Max (decl_rank ` set (xs @ [x])) = max ?M (decl_rank x)"
      using False by (simp add: Max_insert max.commute)
    have step: "foldl pick_decl None (xs @ [x]) = pick_decl (Some ?a) x"
      using fa by simp
    show ?thesis
    proof (cases "?M \<le> decl_rank x")
      case True
      then have "pick_decl (Some ?a) x = Some x" using ra by (simp add: pick_decl_def)
      moreover have "last (filter (\<lambda>d. decl_rank d = Max (decl_rank ` set (xs @ [x]))) (xs @ [x])) = x"
        using M' True by (simp add: max_def)
      ultimately show ?thesis using step by simp
    next
      case le: False
      then have "pick_decl (Some ?a) x = Some ?a" using ra by (simp add: pick_decl_def)
      moreover have "filter (\<lambda>d. decl_rank d = Max (decl_rank ` set (xs @ [x]))) (xs @ [x]) =
          filter (\<lambda>d. decl_rank d = ?M) xs"
        using M' le by (auto simp: max_def)
      ultimately show ?thesis using step by simp
    qed
  qed
qed

lemma cascade_eq_spec: "cascade ds path p = cascade_spec ds path p"
  by (simp add: cascade_def cascade_spec_def foldl_pick_decl_last_max Let_def)

end
