(* ===== verification/Rendering.thy ===== *)
theory Rendering
  imports Alert_Facts Cascade
begin

text \<open>
  What the alert overrides draw, through the host's cascade (\<open>Cascade\<close>): the colours
  the icon, the text and the title end up with for every variant and severity, why the
  filled rules mark the icon colour \<open>!important\<close>, the typography the base rule gives
  the title, the links and the message, and that every declaration the overrides
  contribute has the kind of value its property takes.
\<close>

section \<open>Evaluating the cascade on the alert's rules\<close>

text \<open>A colour that is not itself marked \<open>!important\<close>, as theme colours are not.\<close>

definition plain_color :: "string \<Rightarrow> bool" where
  "plain_color x \<longleftrightarrow> \<not> ends_with important_mark x"

lemma ends_with_append [simp]: "ends_with x (s @ x)"
  by (simp add: ends_with_def)

lemma strip_important_mark [simp]: "strip_important (SStr (s @ important_mark)) = SStr s"
  by (simp add: ends_with_def)

lemma length_important_mark [simp]: "length important_mark = 11"
  by (simp add: important_mark_def)

lemma short_not_important [simp]: "length s < 11 \<Longrightarrow> \<not> ends_with important_mark s"
  by (simp add: ends_with_def)

lemma px_value_plain:
  assumes "is_px v"
  shows "\<not> is_style_obj v" "\<not> is_important v" "strip_important v = v"
  using assms by (cases v; simp)+

lemma override_key_not_class [simp]:
  "override_key v s \<noteq> ''standard''" "override_key v s \<noteq> ''outlined''"
  "override_key v s \<noteq> ''filled''" "override_key v s \<noteq> ''icon''"
  "override_key v s \<noteq> ''message''" "override_key v s \<noteq> ''root''"
  by (cases v; cases s; simp add: override_key_def)+

lemmas cascade_eval = computed_def rendered_decls_def render_alert_complete cascade_def
  parse_key_def parse_word_def selector_matches_def compound_matches_def alert_root_def
  icon_elem_def message_elem_def title_elem_def pick_decl_def decl_rank_def specificity_def

lemmas alert_rules_eval = cascade_eval rule_eval root_override_def filled_def plain_color_def
  important_mark_def [symmetric]

section \<open>The icon\<close>

text \<open>C21: the icon is a disc of one colour with a glyph of the other: for a standard or
  outlined alert the glyph is the common white on a disc of the severity colour, for a
  filled alert the severity colour on a white disc.\<close>

theorem icon_contrast:
  assumes "palette_complete (palette t)" and "severity_main (palette t) s = Some c" and "white_of (palette t) = Some w"
    and "plain_color c" and "plain_color w" and "\<And>ns. \<not> is_style_obj (spacing t ns)"
  shows "computed alert_style_overrides t v s [alert_root v s, icon_elem] ''color'' =
      Some (SStr (if v = Filled then c else w)) \<and>
    computed alert_style_overrides t v s [alert_root v s, icon_elem] ''backgroundColor'' =
      Some (SStr (if v = Filled then w else c))"
  using assms by (cases v) (simp_all add: alert_rules_eval)

theorem icon_contrast_witness:
  "palette_complete (palette example_theme) \<and>
   severity_main (palette example_theme) Success = Some ''#56CA00'' \<and>
   white_of (palette example_theme) = Some ''#FFF'' \<and>
   plain_color ''#56CA00'' \<and> plain_color ''#FFF'' \<and>
   (\<forall>ns. \<not> is_style_obj (spacing example_theme ns)) \<and>
   computed alert_style_overrides example_theme Filled Success
     [alert_root Filled Success, icon_elem] ''color'' = Some (SStr ''#56CA00'')"
proof -
  have p: "plain_color ''#56CA00''" "plain_color ''#FFF''"
    by (simp_all add: plain_color_def ends_with_def important_mark_def)
  have f: "\<And>ns. \<not> is_style_obj (spacing example_theme ns)"
    by (simp add: mui_spacing_def)
  show ?thesis
    using icon_contrast [of example_theme Success "''#56CA00''" "''#FFF''" Filled] p f by simp
qed

text \<open>C22: in a filled alert two declarations set the icon's colour, the base rule's white
  and the filled severity rule's colour marked \<open>!important\<close>, and the base rule's selector
  is the more specific: without the mark the white would win and the glyph would vanish
  on its white disc.\<close>

theorem filled_icon_needs_important:
  assumes "palette_complete (palette t)" and "severity_main (palette t) s = Some c" and "white_of (palette t) = Some w"
    and "\<And>ns. \<not> is_style_obj (spacing t ns)"
  shows "\<exists>sel1 sel2.
    (sel1, ''color'', SStr w) \<in> set (rendered_decls alert_style_overrides t Filled s) \<and>
    (sel2, ''color'', SStr (c @ '' !important'')) \<in> set (rendered_decls alert_style_overrides t Filled s) \<and>
    selector_matches sel1 [alert_root Filled s, icon_elem] \<and>
    selector_matches sel2 [alert_root Filled s, icon_elem] \<and>
    specificity sel2 < specificity sel1"
  using assms
  by (intro exI [of _ "[[Amp, Cls ''MuiAlert-filled''], [Cls ''MuiAlert-icon'']]"]
      exI [of _ "[[Amp], [Cls ''MuiAlert-icon'']]"])
    (simp add: alert_rules_eval)

theorem filled_icon_needs_important_witness:
  "palette_complete (palette example_theme) \<and>
   severity_main (palette example_theme) Error = Some ''#FF4C51'' \<and>
   white_of (palette example_theme) = Some ''#FFF'' \<and>
   (\<forall>ns. \<not> is_style_obj (spacing example_theme ns)) \<and>
   (\<exists>sel1 sel2.
    (sel1, ''color'', SStr ''#FFF'') \<in> set (rendered_decls alert_style_overrides example_theme Filled Error) \<and>
    (sel2, ''color'', SStr (''#FF4C51'' @ '' !important'')) \<in>
      set (rendered_decls alert_style_overrides example_theme Filled Error) \<and>
    selector_matches sel1 [alert_root Filled Error, icon_elem] \<and>
    selector_matches sel2 [alert_root Filled Error, icon_elem] \<and>
    specificity sel2 < specificity sel1)"
proof -
  have f: "\<And>ns. \<not> is_style_obj (spacing example_theme ns)"
    by (simp add: mui_spacing_def)
  show ?thesis
    using filled_icon_needs_important [of example_theme Error "''#FF4C51''" "''#FFF''"] f by simp
qed

section \<open>Text and title\<close>

text \<open>C23: the alert's text is white in a filled alert and the severity colour otherwise;
  the title takes the severity colour in standard and outlined alerts, and the overrides
  do not colour it in a filled one.\<close>

theorem text_colors:
  assumes "palette_complete (palette t)" and "severity_main (palette t) s = Some c" and "white_of (palette t) = Some w"
    and "plain_color c" and "plain_color w" and "\<And>ns. \<not> is_style_obj (spacing t ns)"
  shows "computed alert_style_overrides t v s [alert_root v s] ''color'' =
      Some (SStr (if v = Filled then w else c)) \<and>
    computed alert_style_overrides t v s [alert_root v s, message_elem, title_elem] ''color'' =
      (if v = Filled then None else Some (SStr c))"
  using assms by (cases v) (simp_all add: alert_rules_eval)

theorem text_colors_witness:
  "palette_complete (palette example_theme) \<and>
   severity_main (palette example_theme) Warning = Some ''#FFB400'' \<and>
   white_of (palette example_theme) = Some ''#FFF'' \<and>
   plain_color ''#FFB400'' \<and> plain_color ''#FFF'' \<and>
   (\<forall>ns. \<not> is_style_obj (spacing example_theme ns)) \<and>
   computed alert_style_overrides example_theme Standard Warning
     [alert_root Standard Warning, message_elem, title_elem] ''color'' = Some (SStr ''#FFB400'')"
proof -
  have p: "plain_color ''#FFB400''" "plain_color ''#FFF''"
    by (simp_all add: plain_color_def ends_with_def important_mark_def)
  have f: "\<And>ns. \<not> is_style_obj (spacing example_theme ns)"
    by (simp add: mui_spacing_def)
  show ?thesis
    using text_colors [of example_theme Warning "''#FFB400''" "''#FFF''" Standard] p f by simp
qed

section \<open>Typography of the title, the links and the message\<close>

text \<open>C28: in every variant the title is set in weight 600 with a bottom margin of
  \<open>spacing(1.6)\<close>, a link (an \<open>a\<close> element inside the message) inherits the alert's text
  colour in weight 500, and the message is set at 1rem with padding
  \<open>spacing(1.75, 0)\<close>; no variant or severity rule overrides them.\<close>

theorem title_link_message_typography:
  assumes "palette_complete (palette t)" and "severity_main (palette t) s = Some c" and "white_of (palette t) = Some w"
    and "\<And>ns. is_px (spacing t ns)"
  shows "computed alert_style_overrides t v s [alert_root v s, message_elem, title_elem] ''fontWeight'' =
      Some (SNum 600) \<and>
    computed alert_style_overrides t v s [alert_root v s, message_elem, title_elem] ''marginBottom'' =
      Some (spacing t [8 / 5]) \<and>
    computed alert_style_overrides t v s
      [alert_root v s, message_elem, \<lparr>tag = ''a'', classes = [], styled = False\<rparr>] ''color'' =
      Some (SStr ''inherit'') \<and>
    computed alert_style_overrides t v s
      [alert_root v s, message_elem, \<lparr>tag = ''a'', classes = [], styled = False\<rparr>] ''fontWeight'' =
      Some (SNum 500) \<and>
    computed alert_style_overrides t v s [alert_root v s, message_elem] ''fontSize'' = Some (SStr ''1rem'') \<and>
    computed alert_style_overrides t v s [alert_root v s, message_elem] ''padding'' =
      Some (spacing t [7 / 4, 0])"
proof -
  have "\<not> is_style_obj (spacing t ns)" "\<not> is_important (spacing t ns)"
    "strip_important (spacing t ns) = spacing t ns" for ns
    using px_value_plain [OF assms(4)] by simp_all
  then show ?thesis
    using assms(1-3) by (cases v) (simp_all add: alert_rules_eval)
qed

theorem title_link_message_typography_witness:
  "palette_complete (palette example_theme) \<and>
   severity_main (palette example_theme) Info = Some ''#16B1FF'' \<and>
   white_of (palette example_theme) = Some ''#FFF'' \<and>
   (\<forall>ns. is_px (spacing example_theme ns)) \<and>
   computed alert_style_overrides example_theme Filled Info
     [alert_root Filled Info, message_elem, \<lparr>tag = ''a'', classes = [], styled = False\<rparr>] ''color'' =
     Some (SStr ''inherit'') \<and>
   computed alert_style_overrides example_theme Filled Info
     [alert_root Filled Info, message_elem, title_elem] ''marginBottom'' = Some (SPx [64 / 5])"
proof -
  have x: "\<And>ns. is_px (spacing example_theme ns)"
    by (simp add: mui_spacing_def)
  show ?thesis
    using title_link_message_typography [of example_theme Info "''#16B1FF''" "''#FFF''" Filled] x
    by (simp add: mui_spacing_def)
qed

section \<open>Every declaration has the kind of value its property takes\<close>

text \<open>C24: on a complete theme whose spacing yields lengths, every declaration the
  overrides contribute to any alert has the kind of value its property takes: numbers for
  weights and opacity, lengths for margins and padding, strings for colours, shadows and
  keywords, and never \<open>undefined\<close>.\<close>

theorem declarations_well_kinded:
  assumes "palette_complete (palette t)" and "\<And>ns. is_px (spacing t ns)"
  shows "list_all (\<lambda>d. css_kind_ok (fst (snd d)) (snd (snd d)))
    (rendered_decls alert_style_overrides t v s)"
proof -
  obtain pc c where "severity_entry (palette t) s = Some pc" "main pc = Some c"
    and sm: "severity_main (palette t) s = Some c"
    using assms(1) by (rule palette_complete_main)
  moreover obtain cc w where "common (palette t) = Some cc" "white cc = Some w"
    and "white_of (palette t) = Some w"
    using assms(1) by (rule palette_complete_white)
  moreover have "\<not> is_style_obj (spacing t ns)" for ns
    using px_value_plain(1) [OF assms(2)] .
  ultimately show ?thesis
    using assms by (cases v) (simp_all add: alert_rules_eval css_kind_ok_def)
qed

theorem declarations_well_kinded_witness:
  "palette_complete (palette example_theme) \<and> (\<forall>ns. is_px (spacing example_theme ns)) \<and>
   list_all (\<lambda>d. css_kind_ok (fst (snd d)) (snd (snd d)))
     (rendered_decls alert_style_overrides example_theme Outlined Info)"
proof -
  have c: "palette_complete (palette example_theme)"
    by (simp add: palette_complete_def all_severities_def)
  have x: "\<And>ns. is_px (spacing example_theme ns)"
    by (simp add: mui_spacing_def)
  show ?thesis using declarations_well_kinded [of example_theme Outlined Info] c x by simp
qed

end
