(* ===== verification/Rule_Order.thy ===== *)
theory Rule_Order
  imports Rendering
begin

text \<open>
  The order in which the host applies the alert's rules, and emotion inserts their
  declarations, does not change any element's style: no two declarations the overrides
  contribute to an alert set one property at the same rank with different values.
\<close>

lemma alert_no_ties:
  assumes sp: "\<And>ns. \<not> is_style_obj (spacing t ns)"
  shows "no_ties (rendered_decls alert_style_overrides t v s)"
proof (cases "palette_complete (palette t)")
  case False
  then obtain e where "render_alert alert_style_overrides t v s = Inl e"
    using render_alert_incomplete by blast
  then show ?thesis by (simp add: rendered_decls_def)
next
  case True
  obtain pc c where "severity_entry (palette t) s = Some pc" "main pc = Some c"
    and "severity_main (palette t) s = Some c"
    using True by (rule palette_complete_main)
  moreover obtain cc w where "common (palette t) = Some cc" "white cc = Some w"
    and "white_of (palette t) = Some w"
    using True by (rule palette_complete_white)
  ultimately show ?thesis using True sp
    by (cases v) (simp_all add: alert_rules_eval no_ties_def tie_view_def)
qed

text \<open>C25: for every theme whose spacing yields values, every variant and severity, every
  element of any tree and every property, the style the cascade computes from the
  alert's declarations is the same for any order of those declarations: the host's order
  root, variant, severity is not what makes the alert look as it does.\<close>

theorem styles_independent_of_order:
  assumes "\<And>ns. \<not> is_style_obj (spacing t ns)"
    and "mset ds = mset (rendered_decls alert_style_overrides t v s)"
  shows "cascade ds path p = cascade (rendered_decls alert_style_overrides t v s) path p"
  using cascade_mset [OF assms(2) [symmetric] alert_no_ties [OF assms(1)]] by simp

theorem styles_independent_of_order_witness:
  "(\<forall>ns. \<not> is_style_obj (spacing example_theme ns)) \<and>
   mset (rev (rendered_decls alert_style_overrides example_theme Filled Error)) =
     mset (rendered_decls alert_style_overrides example_theme Filled Error) \<and>
   cascade (rev (rendered_decls alert_style_overrides example_theme Filled Error))
     [alert_root Filled Error, icon_elem] ''color'' =
   cascade (rendered_decls alert_style_overrides example_theme Filled Error)
     [alert_root Filled Error, icon_elem] ''color''"
proof -
  have f: "\<And>ns. \<not> is_style_obj (spacing example_theme ns)"
    by (simp add: mui_spacing_def)
  show ?thesis
    using styles_independent_of_order
      [of example_theme "rev (rendered_decls alert_style_overrides example_theme Filled Error)"
          Filled Error "[alert_root Filled Error, icon_elem]" "''color''"] f
    by simp
qed

end
