(* ===== verification/Spec2Isabelle.thy ===== *)
theory Spec2Isabelle
  imports Alert_Facts Rendering Rule_Order
begin

text \<open>
  \<^bold>\<open>The alert style overrides of the Rooch dashboard.\<close>

  \<^emph>\<open>The program.\<close>  The repository snapshot is one module,
  \<open>src/infra/dashboard/src/@core/theme/overrides/alerts.ts\<close>.  Its default export
  \<open>Alert()\<close> returns the MUI theme entry \<open>{ MuiAlert: { styleOverrides }\<close>, where
  \<open>styleOverrides\<close> maps fourteen keys (\<open>root\<close>, \<open>standardSuccess\<close> ... \<open>filledError\<close>,
  \<open>filled\<close>) to functions of the theme that return nested style objects.  The rules read
  the theme's palette (\<open>theme.palette.<severity>.main\<close>, \<open>theme.palette.common.white\<close>)
  and spacing, and call the helper \<open>hexToRGBA(hex, opacity)\<close> for the translucent
  colours (opacity 0.16 for a standard background, 0.24 for every icon ring).  The host,
  MUI's \<open>Alert\<close>, applies to an alert of variant \<open>v\<close> and severity \<open>s\<close> the rules
  \<open>root\<close>, \<open>v\<close> and \<open>v ^ Capitalised s\<close>.  There is no state: each rule is a pure
  function of the theme, and its only failure is the \<open>TypeError\<close> of reading a property
  of \<open>undefined\<close>.

  \<^emph>\<open>The theories.\<close>
  \<^item> \<open>Prelude\<close>: the error type \<open>js_error\<close> and results \<open>js_error + 'a\<close> with their bind
    \<open>bind_js\<close> (JavaScript evaluates an object literal's properties in order and the first
    read that raises ends it); decimal printing \<open>dec_string\<close> of template literals and
    its inverse, with the round trip \<open>dec_of_digits_dec_string\<close>.
  \<^item> \<open>Style\<close>: \<open>style_value\<close>, the object literals the rules return (association lists
    in the order written), \<open>style_get\<close> reading them by a path of keys, and
    \<open>keys_distinct\<close>, the well-formedness of an object literal.
  \<^item> \<open>Theme\<close>: the theme as records (\<open>OwnerStateThemeType\<close>, declared outside the
    snapshot, so modelled from the spec): each palette entry and each \<open>main\<close> may be
    missing, as a JavaScript property may; \<open>read_main\<close> and \<open>read_white\<close> are the
    property reads that raise; \<open>spacing\<close> is the host's function, a field of the
    record, assumed not to raise, and \<open>mui_spacing\<close> is MUI's \<open>createSpacing\<close> for a
    numeric factor; \<open>severity\<close> and \<open>variant\<close> name the rules; an example theme.
  \<^item> \<open>HexToRgba\<close>: \<open>hexToRGBA\<close> (\<open>src/@core/utils/hex-to-rgba\<close>, not in the snapshot,
    modelled from the spec as the template writes it) with the JavaScript it calls
    written out: \<open>replace\<close> of the first \<open>#\<close>, the \<open>#abc\<close> shorthand, \<open>substring\<close>,
    \<open>parseInt(s, 16)\<close> (white space, sign, \<open>0x\<close> prefix, longest digit prefix, \<open>NaN\<close>)
    and the printing of numbers and of the opacity.  Lemmas: the shorthand gives the
    expansion's string, every channel is \<open>NaN\<close> or in [-15, 255], bytes encoded as
    \<open>#rrggbb\<close> are read back from the rgba string, a well-formed colour gives byte
    channels, upper-casing a colour changes nothing, the digits after the sixth are
    ignored and a four-digit colour gives a \<open>NaN\<close> blue channel.
  \<^item> \<open>Alerts\<close>: the module itself, one definition per entry of \<open>styleOverrides\<close> under
    its source name (\<open>root\<close> is \<open>root_override\<close>), the table
    \<open>alert_style_overrides\<close> in source order, and \<open>Alert\<close>.  \<open>alert_rule\<close> and
    \<open>style_at\<close> observe a rule as the host calls it.
  \<^item> \<open>Alert_Spec\<close>: the specification, independent of the module: the key
    \<open>override_key v s\<close>, one rule-construction function \<open>severity_rule\<close> applied to
    every variant and severity (\<open>alert_table\<close>, the table-driven design the spec asks
    for), and the host's application of overrides, \<open>render_alert\<close>: as MUI v5's
    \<open>createStyled\<close> does, it calls every entry of \<open>styleOverrides\<close> in order (a raise
    aborts the render) and then takes \<open>root\<close>, the variant's entry and the entry of
    variant and colour, the colour being \<open>ownerState.color\<close> or else the severity.
  \<^item> \<open>Alert_Facts\<close>: the facts the properties share: each hand-written rule is
    \<open>severity_rule\<close> at its key, the rule the host finds under each key, the host's
    render on a complete palette (\<open>render_alert_complete\<close>) and its failure on any
    other (\<open>render_alert_incomplete\<close>), the example theme evaluated.
  \<^item> \<open>Cascade\<close>: the host's styling of the alert's elements, stated as a specification
    (MUI and emotion, not repository code): selectors parsed from the keys, \<open>&\<close> nesting,
    flattening into declarations, matching on the alert's element tree (root, icon,
    message, title) and the cascade by \<open>!important\<close>, specificity and order; the kind
    of value each property takes; and \<open>cascade_mset\<close>: when no two declarations of a
    property tie in rank with different values (\<open>no_ties\<close>), the cascade gives the same
    style for every permutation of the declarations; and \<open>cascade_eq_spec\<close>: the
    one-pass \<open>cascade\<close> equals \<open>cascade_spec\<close>, the cascade as CSS states it (the last
    of the matching declarations of highest importance and specificity).
  \<^item> \<open>Rendering\<close>: what the overrides draw through that cascade (C21--C24, C28).
  \<^item> \<open>Rule_Order\<close>: the alert's declarations never tie, so its styles do not depend on
    the order in which the host applies the rules (C25).
  \<^item> \<open>Spec2Isabelle\<close> (this theory): the refinement of the specification by the module
    and the properties that span the components.

  \<^emph>\<open>What is proved.\<close>  The hand-written table equals the table-driven specification
  (C1), from which every per-rule property follows for all variants and severities at
  once.
  \<^item> Colours: text, background and ring colours (C2--C4, C14).
  \<^item> The helper inside the rules: the round trip of \<open>#rrggbb\<close> through the background
    (C7); the channels of any background lie in [-15, 255] or are \<open>NaN\<close> (C8); a
    well-formed colour gives byte channels (C20); case (C15) and the \<open>#abc\<close> shorthand
    (C16) do not change the tints; an eight-digit \<open>#rrggbbaa\<close> gives the tints of its
    opaque colour (C26); a four-digit \<open>#rgba\<close> gives a background with a \<open>NaN\<close> channel
    (C27).
  \<^item> The base rule's spacing multiples (C9).
  \<^item> Error paths: a missing palette entry makes its rules raise (C5), an entry without
    \<open>main\<close> makes the standard and outlined rules raise (C11) but not the filled ones
    (C10), a missing \<open>common\<close> makes every rule that reads white raise (C17), a missing
    \<open>white\<close> leaves two rules with an undefined colour and makes four raise (C18).
  \<^item> The host: an alert renders exactly when the palette is complete, so one missing
    colour breaks every alert (C6); the keys (C12); what the host draws for a filled
    alert (C13); on complete palettes an alert depends only on its severity's colour,
    the white and the spacing (C29), and the standard and outlined rules on neither the
    white nor the spacing (C19).
  \<^item> Through the cascade, on a complete palette: the icon is a white glyph on a disc of
    the severity colour, or the reverse for a filled alert (C21); the filled rules need
    \<open>!important\<close> because the base rule's icon selector is more specific (C22); text and
    title colours (C23); every declaration has its property's kind of value (C24); the
    typography of the title, the links and the message (C28); no style depends on the
    order of the rules or declarations (C25).
  Every theorem with hypotheses has a witness on the example theme or a variant of it.

  \<^emph>\<open>Bounds and limits.\<close>  No loop needs fuel: every function is structural or a
  \<^theory_text>\<open>fun\<close> with an automatic termination proof.  Numbers: spacing arguments and
  style numbers are rationals (the source's literals 1.6, 1.25, 1.75 exactly); the
  opacity is a count of hundredths, printed as JavaScript prints \<open>k / 100\<close>; channels
  are integers, with \<open>NaN\<close> as \<open>None\<close>.  Characters are bytes; JavaScript strings are
  UTF-16, which agrees on the ASCII colours a theme holds, and \<open>parseInt\<close>'s white space
  is its ASCII part.  Not modelled: the CSS text the host prints from the style objects (the cascade
  over them is, in \<open>Cascade\<close>) and the printing of \<open>theme.spacing\<close>'s results (kept as
  \<open>SPx\<close> lengths), since no property of the module depends on how a number is
  printed; \<open>ownerState\<close>, which these rules never read.

  \<^emph>\<open>Not modelled, and why.\<close>  The module keeps no state and has no loop, so there is no
  state machine, invariant of a run, termination argument or liveness property to state:
  every function of the model is total by structural recursion, which the definitions
  themselves establish.  Lines 1--8 and 165--166 of \<open>alerts.ts\<close> are imports and the
  export.  \<open>overrides/index.ts\<close> (the theme type) and \<open>hex-to-rgba\<close> are outside the
  snapshot and modelled from the spec; MUI's \<open>createSpacing\<close> is library code,
  modelled for a numeric factor (\<open>mui_spacing\<close>); MUI's built-in Alert styles are library
  code the snapshot does not hold and are not modelled, so \<open>computed\<close> is what the
  overrides contribute, not the whole style of an element.
\<close>

section \<open>The source's rules implement the table-driven specification\<close>

text \<open>C1: the fourteen hand-written entries of \<open>styleOverrides\<close> are exactly the
  \<open>root\<close> rule, the table-driven construction over every variant and severity (in the
  source's order), and the global \<open>filled\<close> rule.\<close>

theorem alert_overrides_refine_table:
  "alert_style_overrides = (''root'', root_override) # alert_table @ [(''filled'', filled)]"
  by (simp add: alert_style_overrides_def alert_table_def all_variants_def all_severities_def
      override_key_def rules_refine)

section \<open>What each rule draws\<close>

text \<open>C2: for every severity whose colour the palette defines, the standard rule's text
  colour is that colour.\<close>

theorem standard_color:
  assumes "severity_main (palette t) s = Some c"
  shows "style_at (override_key Standard s) t [''color''] = Some (SStr c)"
  using assms by (simp add: rule_eval)

text \<open>C3: the standard rule's background is the severity colour at opacity 0.16.\<close>

theorem standard_background:
  assumes "severity_main (palette t) s = Some c"
  shows "style_at (override_key Standard s) t [''backgroundColor''] = Some (SStr (hexToRGBA c 16))"
  using assms by (simp add: rule_eval)

text \<open>C4: the ring around the icon is a 3px shadow at opacity 0.24 of the severity colour
  for the standard and outlined variants and of the common white for the filled one.\<close>

theorem icon_ring_shadow:
  assumes "severity_main (palette t) s = Some c" and "white_of (palette t) = Some w"
  shows "style_at (override_key v s) t [''& .MuiAlert-icon'', ''boxShadow''] =
    Some (SStr (''0px 0px 0px 3px '' @ hexToRGBA (if v = Filled then w else c) 24))"
  using assms by (cases v) (simp_all add: rule_eval)

text \<open>The example theme's colours, as the host renders them.\<close>

theorem standard_color_witness:
  "severity_main (palette example_theme) Info = Some ''#16B1FF'' \<and>
   style_at (override_key Standard Info) example_theme [''color''] = Some (SStr ''#16B1FF'')"
  using standard_color [of example_theme Info "''#16B1FF''"] by simp

theorem standard_background_witness:
  "severity_main (palette example_theme) Warning = Some ''#FFB400'' \<and>
   style_at (override_key Standard Warning) example_theme [''backgroundColor''] =
     Some (SStr ''rgba(255, 180, 0, 0.16)'')"
  using standard_background [of example_theme Warning "''#FFB400''"] by (simp add: js_eval)

theorem icon_ring_shadow_witness:
  "severity_main (palette example_theme) Error = Some ''#FF4C51'' \<and>
   white_of (palette example_theme) = Some ''#FFF'' \<and>
   style_at (override_key Filled Error) example_theme [''& .MuiAlert-icon'', ''boxShadow''] =
     Some (SStr ''0px 0px 0px 3px rgba(255, 255, 255, 0.24)'')"
  using icon_ring_shadow [of example_theme Error "''#FF4C51''" "''#FFF''" Filled]
  by (simp add: js_eval)

text \<open>C14: the outlined rule colours text, border and title with the severity colour.\<close>

theorem outlined_border:
  assumes "severity_main (palette t) s = Some c"
  shows "style_at (override_key Outlined s) t [''color''] = Some (SStr c) \<and>
    style_at (override_key Outlined s) t [''borderColor''] = Some (SStr c) \<and>
    style_at (override_key Outlined s) t [''& .MuiAlertTitle-root'', ''color''] = Some (SStr c)"
  using assms by (simp add: rule_eval)

theorem outlined_border_witness:
  "severity_main (palette example_theme) Success = Some ''#56CA00'' \<and>
   style_at (override_key Outlined Success) example_theme [''borderColor''] = Some (SStr ''#56CA00'')"
  using outlined_border [of example_theme Success "''#56CA00''"] by simp

section \<open>Translucent colours\<close>

text \<open>C7: when the palette gives a severity colour as \<open>#rrggbb\<close>, the standard rule's
  translucent background is an rgba string from which the same three bytes are read
  back: the tint keeps the severity's hue.\<close>

theorem standard_background_roundtrip:
  assumes "severity_main (palette t) s = Some (hex_color r g b)"
    and "r < 256" and "g < 256" and "b < 256"
  shows "\<exists>x. style_at (override_key Standard s) t [''backgroundColor''] = Some (SStr x) \<and>
    parse_rgba x = Some (r, g, b)"
  using assms by (simp add: rule_eval parse_rgba_hexToRGBA)

theorem standard_background_roundtrip_witness:
  "severity_main (palette (example_theme\<lparr>palette := example_palette\<lparr>info := Some \<lparr>main = Some (hex_color 22 177 255)\<rparr>\<rparr>\<rparr>)) Info
     = Some (hex_color 22 177 255) \<and> (22::nat) < 256 \<and> (177::nat) < 256 \<and> (255::nat) < 256 \<and>
   (\<exists>x. style_at (override_key Standard Info)
          (example_theme\<lparr>palette := example_palette\<lparr>info := Some \<lparr>main = Some (hex_color 22 177 255)\<rparr>\<rparr>\<rparr>)
          [''backgroundColor''] = Some (SStr x) \<and> parse_rgba x = Some (22, 177, 255))"
  using standard_background_roundtrip
      [of "example_theme\<lparr>palette := example_palette\<lparr>info := Some \<lparr>main = Some (hex_color 22 177 255)\<rparr>\<rparr>\<rparr>"
          Info 22 177 255]
  by (simp add: severity_main_def)

text \<open>C8: whatever the theme, a standard background that renders is \<open>hexToRGBA\<close> of the
  severity colour at opacity 0.16, and each of its channels is \<open>NaN\<close> or an integer
  between -15 and 255: no theme string makes the rule write a channel outside that range.\<close>

theorem standard_background_channels:
  assumes "style_at (override_key Standard s) t [''backgroundColor''] = Some (SStr x)"
  shows "\<exists>c. severity_main (palette t) s = Some c \<and> x = hexToRGBA c 16 \<and>
    (case rgb_channels c of (r, g, b) \<Rightarrow>
       channel_in_range r \<and> channel_in_range g \<and> channel_in_range b)"
proof -
  obtain c where c: "severity_main (palette t) s = Some c"
  proof (cases "severity_main (palette t) s")
    case None
    then have "read_main (severity_entry (palette t) s) = Inl (TypeError ''main'') \<or>
               read_main (severity_entry (palette t) s) = Inr None"
      by (cases "severity_entry (palette t) s") (simp_all add: severity_main_def)
    with assms show ?thesis by (auto simp: style_at_def)
  qed
  with assms have "x = hexToRGBA c 16" by (simp add: rule_eval)
  with c rgb_channels_in_range [of c] show ?thesis by (intro exI [of _ c]) simp
qed

theorem standard_background_channels_witness:
  "style_at (override_key Standard Success) example_theme [''backgroundColor''] =
     Some (SStr ''rgba(86, 202, 0, 0.16)'') \<and>
   (\<exists>c. severity_main (palette example_theme) Success = Some c \<and> ''rgba(86, 202, 0, 0.16)'' = hexToRGBA c 16 \<and>
    (case rgb_channels c of (r, g, b) \<Rightarrow>
       channel_in_range r \<and> channel_in_range g \<and> channel_in_range b))"
proof -
  have h: "style_at (override_key Standard Success) example_theme [''backgroundColor''] =
     Some (SStr ''rgba(86, 202, 0, 0.16)'')"
    by (simp add: rule_eval js_eval example_palette_def)
  show ?thesis using standard_background_channels [OF h] h by simp
qed

section \<open>The base rule\<close>

text \<open>C9: the base rule takes every margin and padding from the theme's spacing, at the
  source's multiples 1.6, 3, 1, 1.25 and (1.75, 0).\<close>

theorem root_spacing:
  assumes "common (palette t) \<noteq> None"
  shows "style_at ''root'' t [''& .MuiAlertTitle-root'', ''marginBottom''] = Some (spacing t [8 / 5]) \<and>
    style_at ''root'' t [''& .MuiAlert-icon'', ''marginRight''] = Some (spacing t [3]) \<and>
    style_at ''root'' t [''&.MuiAlert-standard, &.MuiAlert-outlined, &.MuiAlert-filled'',
      ''& .MuiAlert-icon'', ''padding''] = Some (spacing t [1]) \<and>
    style_at ''root'' t [''&.MuiAlert-standard, &.MuiAlert-outlined, &.MuiAlert-filled'',
      ''& .MuiAlert-icon'', ''marginTop''] = Some (spacing t [5 / 4]) \<and>
    style_at ''root'' t [''& .MuiAlert-message'', ''padding''] = Some (spacing t [7 / 4, 0])"
  using assms by (auto simp: style_at_def root_override_def)

text \<open>With MUI's spacing of factor 8, the title's bottom margin is 12.8px.\<close>

theorem root_spacing_witness:
  "common (palette example_theme) \<noteq> None \<and>
   style_at ''root'' example_theme [''& .MuiAlertTitle-root'', ''marginBottom''] = Some (SPx [64 / 5])"
proof -
  have c: "common (palette example_theme) \<noteq> None"
    by (simp add: example_theme_def example_palette_def)
  show ?thesis using root_spacing [OF c] c
    by (simp add: example_theme_def mui_spacing_def)
qed

section \<open>Missing palette entries\<close>

text \<open>C5: when the palette lacks a severity's entry, every rule keyed by that severity
  raises instead of producing a style.\<close>

theorem missing_entry_fails:
  assumes "severity_entry (palette t) s = None"
  shows "\<exists>e. alert_rule (override_key v s) t = Some (Inl e)"
  using assms by (cases v) (auto simp: bind_js_def split: sum.split)

theorem missing_entry_fails_witness:
  "severity_entry palette_without_success Success = None \<and>
   (\<exists>e. alert_rule (override_key Outlined Success)
          (example_theme\<lparr>palette := palette_without_success\<rparr>) = Some (Inl e))"
  using missing_entry_fails [of "example_theme\<lparr>palette := palette_without_success\<rparr>" Success Outlined]
  by (simp add: palette_without_success_def)

text \<open>C11: when the entry exists but has no \<open>main\<close>, the standard and outlined rules raise
  in \<open>hexToRGBA\<close> (reading \<open>replace\<close> of \<open>undefined\<close>).\<close>

theorem undefined_main_fails:
  assumes "severity_entry (palette t) s = Some pc" and "main pc = None" and "v \<noteq> Filled"
  shows "alert_rule (override_key v s) t = Some (Inl (TypeError ''replace''))"
  using assms by (cases v) simp_all

theorem undefined_main_fails_witness:
  "severity_entry palette_success_no_main Success = Some \<lparr>main = None\<rparr> \<and>
   alert_rule (override_key Standard Success) (example_theme\<lparr>palette := palette_success_no_main\<rparr>) =
     Some (Inl (TypeError ''replace''))"
  using undefined_main_fails [of "example_theme\<lparr>palette := palette_success_no_main\<rparr>" Success
      "\<lparr>main = None\<rparr>" Standard]
  by (simp add: palette_success_no_main_def)

text \<open>C10: the filled rule forces the icon glyph to the severity's \<open>main\<close>, substituted into
  a template literal, so an entry without \<open>main\<close> gives \<open>'undefined !important'\<close>
  instead of an error.\<close>

theorem filled_icon_color:
  assumes "severity_entry (palette t) s = Some pc" and "white_of (palette t) = Some w"
  shows "style_at (override_key Filled s) t [''& .MuiAlert-icon'', ''color''] =
    Some (SStr (template_str (main pc) @ '' !important''))"
  using assms by (simp add: rule_eval)

theorem filled_icon_color_witness:
  "severity_entry palette_success_no_main Success = Some \<lparr>main = None\<rparr> \<and>
   white_of palette_success_no_main = Some ''#FFF'' \<and>
   style_at (override_key Filled Success) (example_theme\<lparr>palette := palette_success_no_main\<rparr>)
     [''& .MuiAlert-icon'', ''color''] = Some (SStr ''undefined !important'')"
  using filled_icon_color [of "example_theme\<lparr>palette := palette_success_no_main\<rparr>" Success
      "\<lparr>main = None\<rparr>" "''#FFF''"]
  by (simp add: palette_success_no_main_def white_of_def example_palette_def)

section \<open>Complete themes\<close>

text \<open>C6: an alert of any variant and severity renders exactly when the palette defines
  every severity colour and the common white.  The host calls every entry of
  \<open>styleOverrides\<close> before it picks the alert's three, and each missing colour makes some
  entry raise (a missing white the filled severity rules, a missing severity colour that
  severity's standard and outlined rules): one missing colour breaks every alert, not only
  those of its severity.\<close>

theorem complete_theme_renders:
  "(\<exists>objs. render_alert alert_style_overrides t v s = Inr objs) \<longleftrightarrow> palette_complete (palette t)"
proof
  assume "\<exists>objs. render_alert alert_style_overrides t v s = Inr objs"
  then obtain objs where r: "render_alert alert_style_overrides t v s = Inr objs" ..
  show "palette_complete (palette t)"
  proof (rule ccontr)
    assume "\<not> palette_complete (palette t)"
    then obtain e where "render_alert alert_style_overrides t v s = Inl e"
      using render_alert_incomplete by blast
    with r show False by simp
  qed
next
  assume "palette_complete (palette t)"
  then show "\<exists>objs. render_alert alert_style_overrides t v s = Inr objs"
    by (simp add: render_alert_complete)
qed

theorem complete_theme_renders_witness:
  "(\<exists>objs. render_alert alert_style_overrides example_theme Standard Success = Inr objs) \<and>
   \<not> (\<exists>objs. render_alert alert_style_overrides
          (example_theme\<lparr>palette := palette_without_success\<rparr>) Filled Error = Inr objs)"
proof -
  have "\<not> palette_complete palette_without_success"
    by (simp add: palette_complete_def all_severities_def palette_without_success_def
        severity_main_def)
  then show ?thesis
    using complete_theme_renders [of example_theme Standard Success]
      complete_theme_renders [of "example_theme\<lparr>palette := palette_without_success\<rparr>" Filled Error]
    by simp
qed

section \<open>The keys are the contract\<close>

text \<open>C12: \<open>styleOverrides\<close> has no key twice, and its keys are \<open>root\<close>, \<open>filled\<close> and
  the variant-and-severity key of every variant and severity.\<close>

theorem override_keys_contract:
  "distinct (map fst alert_style_overrides) \<and>
   (\<forall>k. k \<in> set (map fst alert_style_overrides) \<longleftrightarrow>
        k = ''root'' \<or> k = ''filled'' \<or> (\<exists>v s. k = override_key v s))"
proof
  show "distinct (map fst alert_style_overrides)"
    by (simp add: alert_style_overrides_def)
  have "(\<exists>v s. k = override_key v s) \<longleftrightarrow>
        k \<in> set [override_key v s. v \<leftarrow> all_variants, s \<leftarrow> all_severities]" for k
    by (auto, metis imageI severity_in_all variant_in_all)
  then show "\<forall>k. k \<in> set (map fst alert_style_overrides) \<longleftrightarrow>
        k = ''root'' \<or> k = ''filled'' \<or> (\<exists>v s. k = override_key v s)"
    by (auto simp: alert_style_overrides_def all_variants_def all_severities_def override_key_def)
qed

section \<open>Rendering an alert\<close>

text \<open>C13: a filled alert is drawn with the base rule, then the global \<open>filled\<close> rule
  (white text, normal weight), then its severity's rule, whose icon glyph is the
  severity colour forced with \<open>!important\<close>.\<close>

theorem render_filled_alert:
  assumes "palette_complete (palette t)"
    and "severity_main (palette t) s = Some c" and "white_of (palette t) = Some w"
  shows "\<exists>r0 icon. render_alert alert_style_overrides t Filled s =
      Inr [r0, SObj [(''fontWeight'', SNum 400), (''color'', SStr w)], icon] \<and>
    style_get icon [''& .MuiAlert-icon'', ''color''] = Some (SStr (c @ '' !important''))"
proof -
  show ?thesis using assms
    by (simp add: render_alert_complete rule_eval root_override_def filled_def)
qed

theorem render_filled_alert_witness:
  "palette_complete (palette example_theme) \<and>
   severity_main (palette example_theme) Error = Some ''#FF4C51'' \<and>
   white_of (palette example_theme) = Some ''#FFF'' \<and>
   (\<exists>r0 icon. render_alert alert_style_overrides example_theme Filled Error =
      Inr [r0, SObj [(''fontWeight'', SNum 400), (''color'', SStr ''#FFF'')], icon] \<and>
    style_get icon [''& .MuiAlert-icon'', ''color''] = Some (SStr ''#FF4C51 !important''))"
  using render_filled_alert [of example_theme Error "''#FF4C51''" "''#FFF''"] by simp

section \<open>The translucent colours of a severity\<close>

text \<open>The three strings a severity colour is tinted into: the standard background and the
  icon rings of the standard and outlined rules.\<close>

definition tints :: "severity \<Rightarrow> theme \<Rightarrow> style_value option list" where
  "tints s t =
     [style_at (override_key Standard s) t [''backgroundColor''],
      style_at (override_key Standard s) t [''& .MuiAlert-icon'', ''boxShadow''],
      style_at (override_key Outlined s) t [''& .MuiAlert-icon'', ''boxShadow'']]"

lemma tints_eq:
  assumes "severity_main (palette t) s = Some c"
  shows "tints s t =
    [Some (SStr (hexToRGBA c 16)), Some (SStr (ring_shadow (hexToRGBA c 24))),
     Some (SStr (ring_shadow (hexToRGBA c 24)))]"
  using assms by (simp add: tints_def rule_eval)

text \<open>C15: a severity colour written in upper case gives the same tints as in lower case.\<close>

theorem tints_case_insensitive:
  assumes "severity_main (palette t) s = Some c"
    and "severity_main (palette t') s = Some (map ascii_upper c)"
  shows "tints s t' = tints s t"
  using assms by (simp add: tints_eq hexToRGBA_ascii_upper)

lemma upper_example: "map ascii_upper ''#ffb400'' = ''#FFB400''"
  by (simp add: ascii_upper_def char_of_eq_iff)

theorem tints_case_insensitive_witness:
  "severity_main (palette (example_theme\<lparr>palette := example_palette\<lparr>warning := Some \<lparr>main = Some ''#ffb400''\<rparr>\<rparr>\<rparr>)) Warning
     = Some ''#ffb400'' \<and>
   severity_main (palette example_theme) Warning = Some ''#FFB400'' \<and>
   tints Warning example_theme =
   tints Warning (example_theme\<lparr>palette := example_palette\<lparr>warning := Some \<lparr>main = Some ''#ffb400''\<rparr>\<rparr>\<rparr>)"
  using tints_case_insensitive
      [of "example_theme\<lparr>palette := example_palette\<lparr>warning := Some \<lparr>main = Some ''#ffb400''\<rparr>\<rparr>\<rparr>"
          Warning "''#ffb400''" example_theme, unfolded upper_example]
  by (simp add: severity_main_def example_palette_def)

text \<open>C16: a severity colour in the shorthand \<open>#abc\<close> gives the same tints as its expansion
  \<open>#aabbcc\<close>.\<close>

theorem tints_shorthand:
  assumes "severity_main (palette t) s = Some (CHR ''#'' # [a, b, c])"
    and "severity_main (palette t') s = Some (CHR ''#'' # [a, a, b, b, c, c])"
  shows "tints s t = tints s t'"
  using assms by (simp add: tints_eq hexToRGBA_shorthand)

theorem tints_shorthand_witness:
  "severity_main (palette (example_theme\<lparr>palette := example_palette\<lparr>info := Some \<lparr>main = Some ''#1BF''\<rparr>\<rparr>\<rparr>)) Info = Some (CHR ''#'' # [CHR ''1'', CHR ''B'', CHR ''F'']) \<and>
   severity_main (palette (example_theme\<lparr>palette := example_palette\<lparr>info := Some \<lparr>main = Some ''#11BBFF''\<rparr>\<rparr>\<rparr>)) Info =
     Some (CHR ''#'' # [CHR ''1'', CHR ''1'', CHR ''B'', CHR ''B'', CHR ''F'', CHR ''F'']) \<and>
   tints Info (example_theme\<lparr>palette := example_palette\<lparr>info := Some \<lparr>main = Some ''#1BF''\<rparr>\<rparr>\<rparr>) = tints Info (example_theme\<lparr>palette := example_palette\<lparr>info := Some \<lparr>main = Some ''#11BBFF''\<rparr>\<rparr>\<rparr>)"
  using tints_shorthand [of "example_theme\<lparr>palette := example_palette\<lparr>info := Some \<lparr>main = Some ''#1BF''\<rparr>\<rparr>\<rparr>" Info "CHR ''1''" "CHR ''B''" "CHR ''F''"
      "example_theme\<lparr>palette := example_palette\<lparr>info := Some \<lparr>main = Some ''#11BBFF''\<rparr>\<rparr>\<rparr>"]
  by (simp add: severity_main_def example_palette_def)

text \<open>C26: a severity colour with an alpha, \<open>#rrggbbaa\<close>, gives the tints of its opaque
  \<open>#rrggbb\<close>: the alpha the palette asks for is dropped from the background and the rings,
  while the text keeps it.\<close>

theorem tints_ignore_alpha:
  assumes "severity_main (palette t) s = Some (CHR ''#'' # x @ y)"
    and "severity_main (palette t') s = Some (CHR ''#'' # x)" and "length x = 6"
  shows "tints s t = tints s t'"
  using assms by (simp add: tints_eq hexToRGBA_alpha_ignored)

theorem tints_ignore_alpha_witness:
  "severity_main (palette (example_theme\<lparr>palette := example_palette\<lparr>warning := Some \<lparr>main = Some ''#FFB40080''\<rparr>\<rparr>\<rparr>)) Warning
     = Some (CHR ''#'' # ''FFB400'' @ ''80'') \<and>
   severity_main (palette example_theme) Warning = Some (CHR ''#'' # ''FFB400'') \<and>
   length ''FFB400'' = 6 \<and>
   tints Warning (example_theme\<lparr>palette := example_palette\<lparr>warning := Some \<lparr>main = Some ''#FFB40080''\<rparr>\<rparr>\<rparr>) =
   tints Warning example_theme"
  using tints_ignore_alpha
      [of "example_theme\<lparr>palette := example_palette\<lparr>warning := Some \<lparr>main = Some ''#FFB40080''\<rparr>\<rparr>\<rparr>"
          Warning "''FFB400''" "''80''" example_theme]
  by (simp add: severity_main_def example_palette_def)

text \<open>C27: a severity colour in the four-digit form \<open>#rgba\<close> is read as two channels
  \<open>rg\<close> and \<open>ba\<close> and a blue channel \<open>NaN\<close>: the standard background is not a colour.\<close>

theorem four_digit_background_nan:
  assumes "severity_main (palette t) s = Some (CHR ''#'' # [a, b, c, d])"
  shows "style_at (override_key Standard s) t [''backgroundColor''] =
    Some (SStr (''rgba('' @ js_number_str (parse_int_16 [a, b]) @ '', '' @
      js_number_str (parse_int_16 [c, d]) @ '', NaN, 0.16)''))"
  using assms by (simp add: rule_eval hexToRGBA_four_digits)

theorem four_digit_background_nan_witness:
  "severity_main (palette (example_theme\<lparr>palette := example_palette\<lparr>info := Some \<lparr>main = Some ''#1BF8''\<rparr>\<rparr>\<rparr>)) Info
     = Some (CHR ''#'' # [CHR ''1'', CHR ''B'', CHR ''F'', CHR ''8'']) \<and>
   style_at (override_key Standard Info)
     (example_theme\<lparr>palette := example_palette\<lparr>info := Some \<lparr>main = Some ''#1BF8''\<rparr>\<rparr>\<rparr>) [''backgroundColor''] =
     Some (SStr ''rgba(27, 248, NaN, 0.16)'')"
  using four_digit_background_nan
      [of "example_theme\<lparr>palette := example_palette\<lparr>info := Some \<lparr>main = Some ''#1BF8''\<rparr>\<rparr>\<rparr>"
          Info "CHR ''1''" "CHR ''B''" "CHR ''F''" "CHR ''8''"]
  by (simp add: severity_main_def example_palette_def js_eval)

section \<open>What an alert reads of the theme\<close>

text \<open>C29: on complete palettes, an alert of severity \<open>s\<close> takes nothing from the theme
  but \<open>palette[s].main\<close>, \<open>palette.common.white\<close> and \<open>spacing\<close>: two themes that agree
  on these draw it the same in every variant, whatever the other severities' colours.\<close>

theorem render_reads_only:
  assumes "palette_complete (palette t)" and "palette_complete (palette t')"
    and "severity_main (palette t) s = severity_main (palette t') s"
    and "white_of (palette t) = white_of (palette t')" and "spacing t = spacing t'"
  shows "render_alert alert_style_overrides t v s = render_alert alert_style_overrides t' v s"
proof -
  obtain pc c where "severity_entry (palette t) s = Some pc" "main pc = Some c"
    and c: "severity_main (palette t) s = Some c"
    using assms(1) by (rule palette_complete_main)
  moreover obtain cc w where "common (palette t) = Some cc" "white cc = Some w"
    and w: "white_of (palette t) = Some w"
    using assms(1) by (rule palette_complete_white)
  moreover have "severity_main (palette t') s = Some c" "white_of (palette t') = Some w"
    using c w assms(3,4) by simp_all
  ultimately show ?thesis
    using assms(1,2,5) by (cases v) (simp_all add: render_alert_complete rule_eval root_override_def filled_def)
qed

theorem render_reads_only_witness:
  "palette_complete (palette example_theme) \<and>
   palette_complete (palette (example_theme\<lparr>palette := example_palette\<lparr>info := Some \<lparr>main = Some ''#000''\<rparr>\<rparr>\<rparr>)) \<and>
   severity_main (palette example_theme) Warning =
     severity_main (palette (example_theme\<lparr>palette := example_palette\<lparr>info := Some \<lparr>main = Some ''#000''\<rparr>\<rparr>\<rparr>)) Warning \<and>
   white_of (palette example_theme) =
     white_of (palette (example_theme\<lparr>palette := example_palette\<lparr>info := Some \<lparr>main = Some ''#000''\<rparr>\<rparr>\<rparr>)) \<and>
   spacing example_theme =
     spacing (example_theme\<lparr>palette := example_palette\<lparr>info := Some \<lparr>main = Some ''#000''\<rparr>\<rparr>\<rparr>) \<and>
   render_alert alert_style_overrides example_theme Filled Warning =
     render_alert alert_style_overrides
       (example_theme\<lparr>palette := example_palette\<lparr>info := Some \<lparr>main = Some ''#000''\<rparr>\<rparr>\<rparr>) Filled Warning"
proof -
  have c1: "palette_complete (palette example_theme)"
    by simp
  have c2: "palette_complete (palette (example_theme\<lparr>palette := example_palette\<lparr>info := Some \<lparr>main = Some ''#000''\<rparr>\<rparr>\<rparr>))"
    by (simp add: palette_complete_def all_severities_def severity_main_def white_of_def
        example_palette_def)
  have e1: "severity_main (palette example_theme) Warning = severity_main (palette (example_theme\<lparr>palette := example_palette\<lparr>info := Some \<lparr>main = Some ''#000''\<rparr>\<rparr>\<rparr>)) Warning"
    by (simp add: severity_main_def example_palette_def)
  have e2: "white_of (palette example_theme) = white_of (palette (example_theme\<lparr>palette := example_palette\<lparr>info := Some \<lparr>main = Some ''#000''\<rparr>\<rparr>\<rparr>))"
    by (simp add: white_of_def example_palette_def)
  have e3: "spacing example_theme = spacing (example_theme\<lparr>palette := example_palette\<lparr>info := Some \<lparr>main = Some ''#000''\<rparr>\<rparr>\<rparr>)"
    by simp
  show ?thesis
    using render_reads_only [OF c1 c2 e1 e2 e3] c1 c2 e1 e2 e3 by simp
qed

section \<open>The common white\<close>

text \<open>C17: without \<open>palette.common\<close>, the base rule, the global filled rule and every filled
  severity rule raise reading \<open>white\<close>; a filled rule reads it before the severity
  colour.\<close>

theorem missing_common_fails:
  assumes "common (palette t) = None"
  shows "alert_rule ''root'' t = Some (Inl (TypeError ''white'')) \<and>
    alert_rule ''filled'' t = Some (Inl (TypeError ''white'')) \<and>
    alert_rule (override_key Filled s) t = Some (Inl (TypeError ''white''))"
  using assms by (simp add: root_override_def filled_def)

theorem missing_common_fails_witness:
  "common (palette (example_theme\<lparr>palette := example_palette\<lparr>common := None\<rparr>\<rparr>)) = None \<and>
   alert_rule (override_key Filled Warning) (example_theme\<lparr>palette := example_palette\<lparr>common := None\<rparr>\<rparr>) = Some (Inl (TypeError ''white''))"
  using missing_common_fails [of "example_theme\<lparr>palette := example_palette\<lparr>common := None\<rparr>\<rparr>" Warning] by simp

text \<open>C18: with \<open>palette.common\<close> but no \<open>white\<close>, the base and global filled rules
  render with the colour \<open>undefined\<close>, while every filled severity rule raises in
  \<open>hexToRGBA\<close>.\<close>

theorem white_undefined:
  assumes "common (palette t) = Some cc" and "white cc = None"
    and "severity_entry (palette t) s = Some pc"
  shows "style_at ''filled'' t [''color''] = Some SUndef \<and>
    style_at ''root'' t [''&.MuiAlert-standard, &.MuiAlert-outlined, &.MuiAlert-filled'',
      ''& .MuiAlert-icon'', ''color''] = Some SUndef \<and>
    alert_rule (override_key Filled s) t = Some (Inl (TypeError ''replace''))"
  using assms by (simp add: style_at_def root_override_def filled_def)

theorem white_undefined_witness:
  "common (palette (example_theme\<lparr>palette := example_palette\<lparr>common := Some \<lparr>white = None\<rparr>\<rparr>\<rparr>)) = Some \<lparr>white = None\<rparr> \<and>
   white \<lparr>white = None\<rparr> = None \<and>
   severity_entry (palette (example_theme\<lparr>palette := example_palette\<lparr>common := Some \<lparr>white = None\<rparr>\<rparr>\<rparr>)) Info = Some \<lparr>main = Some ''#16B1FF''\<rparr> \<and>
   style_at ''filled'' (example_theme\<lparr>palette := example_palette\<lparr>common := Some \<lparr>white = None\<rparr>\<rparr>\<rparr>) [''color''] = Some SUndef \<and>
   alert_rule (override_key Filled Info) (example_theme\<lparr>palette := example_palette\<lparr>common := Some \<lparr>white = None\<rparr>\<rparr>\<rparr>) = Some (Inl (TypeError ''replace''))"
  using white_undefined [of "example_theme\<lparr>palette := example_palette\<lparr>common := Some \<lparr>white = None\<rparr>\<rparr>\<rparr>" "\<lparr>white = None\<rparr>" Info "\<lparr>main = Some ''#16B1FF''\<rparr>"]
  by (simp add: example_palette_def)

text \<open>C19: the standard and outlined rules read neither the common white nor the spacing:
  changing either leaves them as they are.\<close>

theorem tinted_rules_ignore_white_and_spacing:
  assumes "v \<noteq> Filled"
  shows "alert_rule (override_key v s) (t\<lparr>palette := (palette t)\<lparr>common := x\<rparr>, spacing := sp\<rparr>) =
    alert_rule (override_key v s) t"
  using assms by (cases v) simp_all

theorem tinted_rules_ignore_white_and_spacing_witness:
  "Standard \<noteq> Filled \<and>
   alert_rule (override_key Standard Error) (example_theme\<lparr>palette := example_palette\<lparr>common := None\<rparr>\<rparr>\<lparr>spacing := mui_spacing 4\<rparr>) =
   alert_rule (override_key Standard Error) example_theme"
  using tinted_rules_ignore_white_and_spacing
      [where v = Standard and s = Error and t = example_theme and x = None and sp = "mui_spacing 4"]
  by (simp add: example_theme_def)

section \<open>Well-formed colours\<close>

text \<open>C20: a severity colour that is a well-formed hex colour (\<open>#\<close> and three or six hex
  digits, either case) gives a standard background whose three channels parse as bytes.\<close>

theorem valid_color_background:
  assumes "severity_main (palette t) s = Some c" and "is_hex_color c"
  shows "\<exists>x r g b. style_at (override_key Standard s) t [''backgroundColor''] = Some (SStr x) \<and>
    parse_rgba x = Some (r, g, b) \<and> r < 256 \<and> g < 256 \<and> b < 256"
proof -
  obtain r g b where "r < 256" "g < 256" "b < 256"
    and "hexToRGBA c 16 = ''rgba('' @ dec_string r @ '', '' @ dec_string g @ '', '' @ dec_string b @
      '', '' @ opacity_str 16 @ '')''"
    using hexToRGBA_valid [OF assms(2)] by blast
  with assms(1) show ?thesis
    by (simp add: rule_eval parse_rgba_rgba_string del: opacity_str_consts)
qed

theorem valid_color_background_witness:
  "severity_main (palette example_theme) Error = Some ''#FF4C51'' \<and> is_hex_color ''#FF4C51'' \<and>
   (\<exists>x r g b. style_at (override_key Standard Error) example_theme [''backgroundColor''] = Some (SStr x) \<and>
    parse_rgba x = Some (r, g, b) \<and> r < 256 \<and> g < 256 \<and> b < 256)"
proof -
  have v: "is_hex_color ''#FF4C51''"
    by (simp add: is_hex_color_def is_hex_digit_def hex_digit_val_def)
  show ?thesis using valid_color_background [of example_theme Error "''#FF4C51''"] v by simp
qed

end
